theory Spec2Isabelle
  imports Complex_Main "HOL-Library.Multiset" "HOL-Library.Log_Nat"
begin

section \<open>Lead to Opportunity Speed: the data model\<close>

text \<open>
  The two programs (\<^verbatim>\<open>main.py\<close>, the command-line run, and \<^verbatim>\<open>dashboard.py\<close>, the
  interactive page) fetch leads and calendar events into two pandas data frames, join
  them on the e-mail address, keep the earliest event of every lead, drop the negative
  durations and average what is left.

  A timestamp is a \<^verbatim>\<open>datetime64[ns]\<close> value, timezone-naive after
  \<^verbatim>\<open>tz_localize(None)\<close>: a number of nanoseconds. A \<^verbatim>\<open>Timedelta\<close> is a
  difference of two of them. An e-mail address is what the remote row holds: a string,
  or nothing (\<^verbatim>\<open>attendee.get('email')\<close> is \<^verbatim>\<open>None\<close> for an attendee without the
  field, and a nullable column of the lead table gives \<^verbatim>\<open>None\<close> as well).
\<close>

type_synonym timestamp = int
type_synonym timedelta = int

record lead =
  email :: "string option"
  created_at :: timestamp

record attendance =
  attendee_email :: "string option"
  event_created_at :: timestamp

text \<open>
  A row of \<^verbatim>\<open>merged_df\<close> carries the columns of the lead and the columns of the
  attendance; a row of \<^verbatim>\<open>first_call_df\<close> carries the \<^verbatim>\<open>speed\<close> column too.
\<close>

type_synonym merged_row = "lead \<times> attendance"
type_synonym speed_row = "merged_row \<times> timedelta"

section \<open>The business logic shared by both programs\<close>

text \<open>
  \<^verbatim>\<open>pd.merge(df_leads, df_events, left_on='email', right_on='attendee_email', how='inner')\<close>:
  one row for every pair of a lead and an attendance with the same key, in the order of
  the left frame. pandas pairs two null keys with each other (unlike SQL), which is
  what equality of optional values does.
\<close>

definition merge :: "lead list \<Rightarrow> attendance list \<Rightarrow> merged_row list" where
  "merge df_leads df_events =
     concat (map (\<lambda>l. map (Pair l) (filter (\<lambda>e. email l = attendee_email e) df_events))
                 df_leads)"

text \<open>
  \<^verbatim>\<open>merged_df.sort_values(by='event_created_at', ascending=True)\<close>. The order pandas
  gives to rows with equal keys depends on the sorting algorithm (the default is not
  stable on long frames), so the pipeline takes the sorting function as an argument and
  the theorems ask of it only what every sort by that column does; the stable insertion
  sort \<open>sort_values\<close> is one such function.
\<close>

definition sorts_by_event :: "(merged_row list \<Rightarrow> merged_row list) \<Rightarrow> bool" where
  "sorts_by_event srt \<longleftrightarrow>
     (\<forall>xs. mset (srt xs) = mset xs \<and> sorted (map (\<lambda>j. event_created_at (snd j)) (srt xs)))"

definition sort_values :: "merged_row list \<Rightarrow> merged_row list" where
  "sort_values = sort_key (\<lambda>j. event_created_at (snd j))"

text \<open>
  \<^verbatim>\<open>drop_duplicates(subset='email', keep='first')\<close>: a row stays when no earlier row
  has its e-mail.
\<close>

fun drop_duplicates_from :: "string option list \<Rightarrow> merged_row list \<Rightarrow> merged_row list" where
  "drop_duplicates_from seen [] = []"
| "drop_duplicates_from seen (j # js) =
     (if email (fst j) \<in> set seen then drop_duplicates_from seen js
      else j # drop_duplicates_from (email (fst j) # seen) js)"

definition drop_duplicates :: "merged_row list \<Rightarrow> merged_row list" where
  "drop_duplicates js = drop_duplicates_from [] js"

text \<open>
  \<^verbatim>\<open>first_call_df['speed'] = first_call_df['event_created_at'] - first_call_df['created_at']\<close>
  and \<^verbatim>\<open>first_call_df[first_call_df['speed'] >= pd.Timedelta(0)]\<close>.
\<close>

definition speed :: "merged_row \<Rightarrow> timedelta" where
  "speed j = event_created_at (snd j) - created_at (fst j)"

definition with_speed :: "merged_row list \<Rightarrow> speed_row list" where
  "with_speed js = map (\<lambda>j. (j, speed j)) js"

definition non_negative :: "speed_row list \<Rightarrow> speed_row list" where
  "non_negative rs = filter (\<lambda>r. 0 \<le> snd r) rs"

text \<open>
  \<^verbatim>\<open>first_call_df['speed'].mean()\<close>. pandas takes the mean of a \<^verbatim>\<open>Timedelta\<close> column
  on its nanosecond counts in double precision: every count is converted to a
  \<^verbatim>\<open>float64\<close>, the column is summed in \<^verbatim>\<open>float64\<close>, the sum is divided by the
  \<^verbatim>\<open>float64\<close> number of rows, and the quotient is cut to a whole number of nanoseconds
  (\<^verbatim>\<open>np.int64\<close>, towards zero). It is taken on a frame that is not empty.

  \<open>float64 x\<close> is the double nearest to \<open>x\<close>, ties to the even significand: \<open>x\<close> is
  rounded to 53 significant bits (\<open>exponent x\<close> is the power of two at or below \<open>x\<close>).
  The bounds of the exponent of a double are left out; the magnitudes of nanosecond
  counts and of their quotients are far inside them.
\<close>

definition pow2 :: "int \<Rightarrow> rat" where
  "pow2 e = (if 0 \<le> e then 2 ^ nat e else 1 / 2 ^ nat (- e))"

definition exponent :: "rat \<Rightarrow> int" where
  "exponent x =
     (let (p, q) = quotient_of x; d = bitlen p - bitlen q
      in if pow2 d \<le> x then d else d - 1)"

definition round_half_even :: "rat \<Rightarrow> int" where
  "round_half_even y =
     (let f = \<lfloor>y\<rfloor>; d = y - of_int f
      in if d < 1 / 2 then f else if 1 / 2 < d then f + 1 else if even f then f else f + 1)"

definition float64 :: "rat \<Rightarrow> rat" where
  "float64 x =
     (if x = 0 then 0
      else let u = pow2 (exponent \<bar>x\<bar> - 52) in of_int (round_half_even (x / u)) * u)"

definition to_int64 :: "rat \<Rightarrow> int" where
  "to_int64 x = (if 0 \<le> x then \<lfloor>x\<rfloor> else \<lceil>x\<rceil>)"



definition sequential_sum :: "rat list \<Rightarrow> rat" where
  "sequential_sum xs = foldl (\<lambda>res x. float64 (res + x)) 0 xs"

definition series_mean :: "(rat list \<Rightarrow> rat) \<Rightarrow> timedelta list \<Rightarrow> timedelta" where
  "series_mean fsum ds =
     to_int64 (float64 (fsum (map (\<lambda>d. float64 (of_int d)) ds) / float64 (of_nat (length ds))))"

text \<open>
  What one run reports: one of the three notices that end it early, or the average with
  the rows it was taken over. \<open>sample_count\<close> is \<^verbatim>\<open>len(first_call_df)\<close>.
\<close>

record aggregate_result =
  mean_duration :: timedelta
  records :: "speed_row list"

datatype report =
    InsufficientData
  | NoLeadWithCall
  | NoValidCall
  | Result aggregate_result

definition first_call :: "(merged_row list \<Rightarrow> merged_row list) \<Rightarrow> lead list \<Rightarrow> attendance list
    \<Rightarrow> merged_row list" where
  "first_call srt df_leads df_events = drop_duplicates (srt (merge df_leads df_events))"

definition aggregate_with :: "(merged_row list \<Rightarrow> merged_row list) \<Rightarrow> (rat list \<Rightarrow> rat)
    \<Rightarrow> lead list \<Rightarrow> attendance list \<Rightarrow> report" where
  "aggregate_with srt fsum df_leads df_events =
     (if df_leads = [] \<or> df_events = [] then InsufficientData
      else
        let first_call_df = first_call srt df_leads df_events in
        if first_call_df = [] then NoLeadWithCall
        else
          let valid = non_negative (with_speed first_call_df) in
          if valid = [] then NoValidCall
          else Result \<lparr>mean_duration = series_mean fsum (map snd valid), records = valid\<rparr>)"

definition aggregate :: "lead list \<Rightarrow> attendance list \<Rightarrow> report" where
  "aggregate = aggregate_with sort_values sequential_sum"

fun report_records :: "report \<Rightarrow> speed_row list" where
  "report_records (Result r) = records r"
| "report_records _ = []"

fun report_mean :: "report \<Rightarrow> timedelta option" where
  "report_mean (Result r) = Some (mean_duration r)"
| "report_mean _ = None"

definition sample_count :: "report \<Rightarrow> nat" where
  "sample_count rep = length (report_records rep)"

text \<open>
  The selection as the specification words it, for comparison with the code: group the
  joined rows by e-mail; within each group, sort by \<^verbatim>\<open>event_created_at\<close> ascending and
  take the first row. \<open>spec_candidate srt js k\<close> is the candidate of the group of the
  e-mail \<open>k\<close>, \<open>spec_candidates\<close> collects the candidates of all groups.
\<close>

definition spec_candidate :: "(merged_row list \<Rightarrow> merged_row list) \<Rightarrow> merged_row list \<Rightarrow> string option
    \<Rightarrow> merged_row option" where
  "spec_candidate srt js k =
     (case srt (filter (\<lambda>j. email (fst j) = k) js) of [] \<Rightarrow> None | j # _ \<Rightarrow> Some j)"

definition spec_candidates :: "(merged_row list \<Rightarrow> merged_row list) \<Rightarrow> merged_row list \<Rightarrow> merged_row list" where
  "spec_candidates srt js =
     List.map_filter (spec_candidate srt js) (remdups (map (\<lambda>j. email (fst j)) js))"

section \<open>Presentation of the average\<close>

text \<open>
  \<^verbatim>\<open>average_speed.total_seconds()\<close> is a Python float; \<^verbatim>\<open>//\<close> and \<^verbatim>\<open>%\<close> on floats
  are floor division and its remainder, \<^verbatim>\<open>int\<close> cuts the fraction towards zero. They
  are taken here on exact numbers.
\<close>

definition total_seconds :: "timedelta \<Rightarrow> rat" where
  "total_seconds td = of_int td / 1000000000"

definition py_floordiv :: "rat \<Rightarrow> rat \<Rightarrow> rat" where
  "py_floordiv x y = of_int \<lfloor>x / y\<rfloor>"

definition py_mod :: "rat \<Rightarrow> rat \<Rightarrow> rat" where
  "py_mod x y = x - y * of_int \<lfloor>x / y\<rfloor>"

definition py_int :: "rat \<Rightarrow> int" where
  "py_int x = (if 0 \<le> x then \<lfloor>x\<rfloor> else \<lceil>x\<rceil>)"

text \<open>
  \<^verbatim>\<open>dashboard.py\<close>: the metric shows \<^verbatim>\<open>days\<close> and \<^verbatim>\<open>hours\<close> beside the number of
  leads; a run that ended early shows a warning and no metric.
\<close>

definition dashboard_days_hours :: "timedelta \<Rightarrow> int \<times> int" where
  "dashboard_days_hours average_speed =
     (let total_seconds = total_seconds average_speed;
          days = py_int (py_floordiv total_seconds 86400);
          hours = py_int (py_floordiv (py_mod total_seconds 86400) 3600)
      in (days, hours))"

fun dashboard_metrics :: "report \<Rightarrow> ((int \<times> int) \<times> nat) option" where
  "dashboard_metrics (Result r) =
     Some (dashboard_days_hours (mean_duration r), length (records r))"
| "dashboard_metrics _ = None"

text \<open>
  \<^verbatim>\<open>main.py\<close>: the friendly line prints \<^verbatim>\<open>int(days)\<close>, \<^verbatim>\<open>int(hours)\<close> and
  \<^verbatim>\<open>int(minutes)\<close> after the number of leads.
\<close>

definition cli_days_hours_minutes :: "timedelta \<Rightarrow> int \<times> int \<times> int" where
  "cli_days_hours_minutes average_speed =
     (let total_seconds = total_seconds average_speed;
          days = py_floordiv total_seconds 86400;
          hours = py_floordiv (py_mod total_seconds 86400) 3600;
          minutes = py_floordiv (py_mod total_seconds 3600) 60
      in (py_int days, py_int hours, py_int minutes))"

fun cli_result :: "report \<Rightarrow> (nat \<times> int \<times> int \<times> int) option" where
  "cli_result (Result r) =
     Some (length (records r), cli_days_hours_minutes (mean_duration r))"
| "cli_result _ = None"

section \<open>The event fetcher\<close>

text \<open>
  What the calendar service and the local token file answer is the input of the fetcher.
  A call that can fail answers with an exception or with a value; a JSON object is a
  record whose optional keys are optional fields.
\<close>

datatype exn = HttpError | RefreshError | TransportError | KeyError | ValueError

record attendee =
  att_email :: "string option"
  att_self :: "bool option"
  att_resource :: "bool option"

record event =
  created :: "string option"
  attendees :: "attendee list option"

record calendar =
  cal_id :: "string option"

record credentials =
  valid :: bool
  expired :: bool
  refresh_token :: bool

record world =
  token_json :: "(exn + credentials) option"
  refresh :: "exn + credentials"
  run_local_server :: "exn + credentials"
  write_token :: "exn option"
  build :: "exn option"
  calendar_list :: "exn + calendar list option"
  events_list :: "string \<Rightarrow> exn + event list option"

text \<open>
  The lines before \<^verbatim>\<open>try:\<close>, the same in both programs: load the stored credentials,
  refresh them or run the consent flow when they are missing or not valid, and store
  the result. No handler surrounds them.
\<close>

definition get_credentials :: "world \<Rightarrow> exn + credentials" where
  "get_credentials w =
     (case token_json w of
        Some (Inl e) \<Rightarrow> Inl e
      | Some (Inr creds) \<Rightarrow>
          if valid creds then Inr creds
          else
            (case (if expired creds \<and> refresh_token creds then refresh w
                   else run_local_server w) of
               Inl e \<Rightarrow> Inl e
             | Inr creds' \<Rightarrow>
                 (case write_token w of Some e \<Rightarrow> Inl e | None \<Rightarrow> Inr creds'))
      | None \<Rightarrow>
          (case run_local_server w of
             Inl e \<Rightarrow> Inl e
           | Inr creds' \<Rightarrow>
               (case write_token w of Some e \<Rightarrow> Inl e | None \<Rightarrow> Inr creds')))"

text \<open>
  The loop over the calendars: \<^verbatim>\<open>calendar['id']\<close> raises \<^verbatim>\<open>KeyError\<close> on a calendar
  without the key, the request may raise, and \<^verbatim>\<open>events_result.get('items', [])\<close>
  extends \<^verbatim>\<open>all_events\<close>.
\<close>

fun get_all_events :: "world \<Rightarrow> calendar list \<Rightarrow> event list \<Rightarrow> exn + event list" where
  "get_all_events w [] all_events = Inr all_events"
| "get_all_events w (c # calendars) all_events =
     (case cal_id c of
        None \<Rightarrow> Inl KeyError
      | Some calendar_id \<Rightarrow>
          (case events_list w calendar_id of
             Inl e \<Rightarrow> Inl e
           | Inr events_result \<Rightarrow>
               get_all_events w calendars
                 (all_events @ (case events_result of None \<Rightarrow> [] | Some events \<Rightarrow> events))))"

text \<open>
  The loop over the attendees of one event: a dictionary is appended for every attendee
  that is neither \<^verbatim>\<open>self\<close> nor a \<^verbatim>\<open>resource\<close>, with \<^verbatim>\<open>attendee.get('email')\<close>
  as it is.
\<close>

type_synonym raw_record = "string option \<times> string"

definition flag :: "bool option \<Rightarrow> bool" where
  "flag b = (case b of None \<Rightarrow> False | Some v \<Rightarrow> v)"

fun process_attendees :: "string \<Rightarrow> attendee list \<Rightarrow> raw_record list \<Rightarrow> raw_record list" where
  "process_attendees creation_date [] processed_events = processed_events"
| "process_attendees creation_date (a # as) processed_events =
     process_attendees creation_date as
       (if \<not> flag (att_self a) \<and> \<not> flag (att_resource a)
        then processed_events @ [(att_email a, creation_date)]
        else processed_events)"

text \<open>
  \<^verbatim>\<open>main.py\<close> skips an event whose \<^verbatim>\<open>created\<close> is missing or empty and reads
  \<^verbatim>\<open>event.get('attendees', [])\<close>; \<^verbatim>\<open>dashboard.py\<close> asks for both \<^verbatim>\<open>created\<close> and
  \<^verbatim>\<open>attendees\<close> to be present and not empty.
\<close>

fun process_events_cli :: "event list \<Rightarrow> raw_record list \<Rightarrow> raw_record list" where
  "process_events_cli [] processed_events = processed_events"
| "process_events_cli (ev # evs) processed_events =
     (case created ev of
        None \<Rightarrow> process_events_cli evs processed_events
      | Some creation_date \<Rightarrow>
          if creation_date = [] then process_events_cli evs processed_events
          else process_events_cli evs
                 (process_attendees creation_date
                    (case attendees ev of None \<Rightarrow> [] | Some as \<Rightarrow> as) processed_events))"

fun process_events_dashboard :: "event list \<Rightarrow> raw_record list \<Rightarrow> raw_record list" where
  "process_events_dashboard [] processed_events = processed_events"
| "process_events_dashboard (ev # evs) processed_events =
     (case (created ev, attendees ev) of
        (Some creation_date, Some as) \<Rightarrow>
          if creation_date \<noteq> [] \<and> as \<noteq> []
          then process_events_dashboard evs (process_attendees creation_date as processed_events)
          else process_events_dashboard evs processed_events
      | _ \<Rightarrow> process_events_dashboard evs processed_events)"

text \<open>
  \<^verbatim>\<open>df_events = pd.DataFrame(processed_events)\<close> followed by the conversion of the
  column \<^verbatim>\<open>event_created_at\<close>. A frame built from an empty list has no columns, so
  reading the column raises \<^verbatim>\<open>KeyError\<close>; \<^verbatim>\<open>pd.to_datetime\<close> raises \<^verbatim>\<open>ValueError\<close>
  on a string it cannot parse. The parser of the timestamps is an argument:
  \<open>to_datetime s\<close> is the parsed, timezone-naive timestamp, or \<open>None\<close> where pandas
  raises.
\<close>

fun to_datetime_column :: "(string \<Rightarrow> timestamp option) \<Rightarrow> raw_record list \<Rightarrow> exn + attendance list" where
  "to_datetime_column to_datetime [] = Inr []"
| "to_datetime_column to_datetime (r # rs) =
     (case to_datetime (snd r) of
        None \<Rightarrow> Inl ValueError
      | Some t \<Rightarrow>
          (case to_datetime_column to_datetime rs of
             Inl e \<Rightarrow> Inl e
           | Inr df \<Rightarrow> Inr (\<lparr>attendee_email = fst r, event_created_at = t\<rparr> # df)))"

definition data_frame :: "(string \<Rightarrow> timestamp option) \<Rightarrow> raw_record list \<Rightarrow> exn + attendance list" where
  "data_frame to_datetime processed_events =
     (if processed_events = [] then Inl KeyError
      else to_datetime_column to_datetime processed_events)"

text \<open>The body of the \<^verbatim>\<open>try\<close> block of \<^verbatim>\<open>main.py\<close>, with its early return on no event.\<close>

definition cli_try_block :: "(string \<Rightarrow> timestamp option) \<Rightarrow> world \<Rightarrow> exn + attendance list" where
  "cli_try_block to_datetime w =
     (case build w of
        Some e \<Rightarrow> Inl e
      | None \<Rightarrow>
          (case calendar_list w of
             Inl e \<Rightarrow> Inl e
           | Inr calendar_list_result \<Rightarrow>
               (case get_all_events w
                       (case calendar_list_result of None \<Rightarrow> [] | Some calendars \<Rightarrow> calendars) [] of
                  Inl e \<Rightarrow> Inl e
                | Inr all_events \<Rightarrow>
                    if all_events = [] then Inr []
                    else data_frame to_datetime (process_events_cli all_events []))))"

text \<open>The body of the \<^verbatim>\<open>try\<close> block of \<^verbatim>\<open>dashboard.py\<close>.\<close>

definition dashboard_try_block :: "(string \<Rightarrow> timestamp option) \<Rightarrow> world \<Rightarrow> exn + attendance list" where
  "dashboard_try_block to_datetime w =
     (case build w of
        Some e \<Rightarrow> Inl e
      | None \<Rightarrow>
          (case calendar_list w of
             Inl e \<Rightarrow> Inl e
           | Inr calendar_list_result \<Rightarrow>
               (case get_all_events w
                       (case calendar_list_result of None \<Rightarrow> [] | Some calendars \<Rightarrow> calendars) [] of
                  Inl e \<Rightarrow> Inl e
                | Inr all_events \<Rightarrow>
                    data_frame to_datetime (process_events_dashboard all_events []))))"

text \<open>
  The two fetchers. A result \<open>Inl e\<close> is the exception \<open>e\<close> leaving the function;
  \<open>Inr (df, d)\<close> is the returned frame with the error message the handler showed, if
  any. \<^verbatim>\<open>main.py\<close> handles \<^verbatim>\<open>HttpError\<close> only, \<^verbatim>\<open>dashboard.py\<close> handles every
  \<^verbatim>\<open>Exception\<close>.
\<close>

definition get_google_calendar_events_cli ::
    "(string \<Rightarrow> timestamp option) \<Rightarrow> world \<Rightarrow> exn + attendance list \<times> exn option" where
  "get_google_calendar_events_cli to_datetime w =
     (case get_credentials w of
        Inl e \<Rightarrow> Inl e
      | Inr creds \<Rightarrow>
          (case cli_try_block to_datetime w of
             Inl e \<Rightarrow> if e = HttpError then Inr ([], Some e) else Inl e
           | Inr df_events \<Rightarrow> Inr (df_events, None)))"

definition get_google_calendar_events_dashboard ::
    "(string \<Rightarrow> timestamp option) \<Rightarrow> world \<Rightarrow> exn + attendance list \<times> exn option" where
  "get_google_calendar_events_dashboard to_datetime w =
     (case get_credentials w of
        Inl e \<Rightarrow> Inl e
      | Inr creds \<Rightarrow>
          (case dashboard_try_block to_datetime w of
             Inl e \<Rightarrow> Inr ([], Some e)
           | Inr df_events \<Rightarrow> Inr (df_events, None)))"

section \<open>Facts about sorting, duplicate removal and the join\<close>

lemma sorts_by_event_sort_values: "sorts_by_event sort_values"
  by (simp add: sorts_by_event_def sort_values_def)

lemma sorts_by_event_Nil: "sorts_by_event srt \<Longrightarrow> srt [] = []"
  by (metis sorts_by_event_def mset_zero_iff)

lemma sorts_by_event_set: "sorts_by_event srt \<Longrightarrow> set (srt xs) = set xs"
  by (metis sorts_by_event_def set_mset_mset)

lemma sorts_by_event_sorted:
  "sorts_by_event srt \<Longrightarrow> sorted (map (\<lambda>j. event_created_at (snd j)) (srt xs))"
  by (simp add: sorts_by_event_def)

lemma find_drop_duplicates_from:
  "List.find (\<lambda>j. email (fst j) = k) (drop_duplicates_from seen js) =
     (if k \<in> set seen then None else List.find (\<lambda>j. email (fst j) = k) js)"
  by (induction js arbitrary: seen) auto

lemma set_drop_duplicates_from: "set (drop_duplicates_from seen js) \<subseteq> set js"
  by (induction js arbitrary: seen) auto

lemma emails_drop_duplicates_from:
  "email ` fst ` set (drop_duplicates_from seen js) = email ` fst ` set js - set seen"
  by (induction js arbitrary: seen) auto

lemma distinct_drop_duplicates_from:
  "distinct (map (\<lambda>j. email (fst j)) (drop_duplicates_from seen js))"
proof (induction js arbitrary: seen)
  case Nil
  show ?case by simp
next
  case (Cons j js)
  have "email (fst j) \<notin> email ` fst ` set (drop_duplicates_from (email (fst j) # seen) js)"
    by (simp add: emails_drop_duplicates_from)
  then show ?case using Cons.IH by (auto simp: image_iff)
qed

lemma find_drop_duplicates:
  "List.find (\<lambda>j. email (fst j) = k) (drop_duplicates js) = List.find (\<lambda>j. email (fst j) = k) js"
  by (simp add: drop_duplicates_def find_drop_duplicates_from)

lemma set_drop_duplicates: "set (drop_duplicates js) \<subseteq> set js"
  by (simp add: drop_duplicates_def set_drop_duplicates_from)

lemma emails_drop_duplicates: "email ` fst ` set (drop_duplicates js) = email ` fst ` set js"
  by (simp add: drop_duplicates_def emails_drop_duplicates_from)

lemma distinct_drop_duplicates: "distinct (map (\<lambda>j. email (fst j)) (drop_duplicates js))"
  by (simp add: drop_duplicates_def distinct_drop_duplicates_from)

lemma drop_duplicates_Nil_iff: "drop_duplicates js = [] \<longleftrightarrow> js = []"
  by (cases js) (simp_all add: drop_duplicates_def)

lemma find_sorted_least:
  "sorted (map f ys) \<Longrightarrow> List.find P ys = Some y \<Longrightarrow> y' \<in> set ys \<Longrightarrow> P y' \<Longrightarrow> f y \<le> f y'"
  by (induction ys) (auto split: if_splits)

lemma find_distinct_key:
  "distinct (map f ys) \<Longrightarrow> y \<in> set ys \<Longrightarrow> List.find (\<lambda>x. f x = f y) ys = Some y"
  by (induction ys) (auto simp: image_iff)

lemma filter_distinct_key:
  "distinct (map f ys) \<Longrightarrow> List.find (\<lambda>x. f x = k) ys = Some y \<Longrightarrow> filter (\<lambda>x. f x = k) ys = [y]"
proof (induction ys)
  case Nil
  then show ?case by simp
next
  case (Cons a ys)
  show ?case
  proof (cases "f a = k")
    case True
    then have "y = a" using Cons.prems(2) by simp
    moreover have "filter (\<lambda>x. f x = k) ys = []"
      using Cons.prems(1) True by (auto simp: filter_empty_conv image_iff)
    ultimately show ?thesis using True by simp
  next
    case False
    then show ?thesis using Cons by simp
  qed
qed

lemma find_Some_set: "List.find P ys = Some y \<Longrightarrow> y \<in> set ys \<and> P y"
  by (induction ys) (auto split: if_splits)

lemma find_exists: "y \<in> set ys \<Longrightarrow> P y \<Longrightarrow> \<exists>z. List.find P ys = Some z"
  by (induction ys) auto

lemma set_merge:
  "set (merge df_leads df_events) =
     {(l, e). l \<in> set df_leads \<and> e \<in> set df_events \<and> email l = attendee_email e}"
  by (auto simp: merge_def)

lemma merge_Nil_iff:
  "merge df_leads df_events = [] \<longleftrightarrow>
     (\<forall>l \<in> set df_leads. \<forall>e \<in> set df_events. email l \<noteq> attendee_email e)"
  by (auto simp: merge_def filter_empty_conv)

lemma set_first_call:
  "sorts_by_event srt \<Longrightarrow> set (first_call srt df_leads df_events) \<subseteq> set (merge df_leads df_events)"
  using set_drop_duplicates[of "srt (merge df_leads df_events)"]
  by (simp add: first_call_def sorts_by_event_set)

lemma first_call_Nil_iff:
  "sorts_by_event srt \<Longrightarrow> first_call srt df_leads df_events = [] \<longleftrightarrow> merge df_leads df_events = []"
  by (metis first_call_def drop_duplicates_Nil_iff sorts_by_event_set set_empty)

lemma report_records_aggregate_with:
  "sorts_by_event srt \<Longrightarrow>
   report_records (aggregate_with srt fsum df_leads df_events) =
     non_negative (with_speed (first_call srt df_leads df_events))"
proof -
  assume s: "sorts_by_event srt"
  have "merge df_leads df_events = []" if "df_leads = [] \<or> df_events = []"
    using that by (auto simp: merge_def)
  then have "first_call srt df_leads df_events = []" if "df_leads = [] \<or> df_events = []"
    using that s by (simp add: first_call_Nil_iff)
  then show ?thesis
    by (auto simp: aggregate_with_def Let_def non_negative_def with_speed_def)
qed

lemma impl_selected_row:
  assumes s: "sorts_by_event srt" and k: "k \<in> (\<lambda>j. email (fst j)) ` set js"
  obtains j where "filter (\<lambda>x. email (fst x) = k) (drop_duplicates (srt js)) = [j]"
    and "List.find (\<lambda>x. email (fst x) = k) (srt js) = Some j"
    and "j \<in> set js" and "email (fst j) = k"
    and "\<And>x. x \<in> set js \<Longrightarrow> email (fst x) = k \<Longrightarrow> event_created_at (snd j) \<le> event_created_at (snd x)"
proof -
  let ?P = "\<lambda>x. email (fst x) = k"
  from k obtain y where "y \<in> set (srt js)" "?P y"
    using sorts_by_event_set[OF s] by auto
  then obtain j where f: "List.find ?P (srt js) = Some j"
    using find_exists[of y "srt js" ?P] by blast
  then have "List.find ?P (drop_duplicates (srt js)) = Some j"
    by (simp add: find_drop_duplicates)
  then have 1: "filter ?P (drop_duplicates (srt js)) = [j]"
    using filter_distinct_key[OF distinct_drop_duplicates] by blast
  have 2: "j \<in> set js" "?P j"
    using find_Some_set[OF f] sorts_by_event_set[OF s] by auto
  have 3: "event_created_at (snd j) \<le> event_created_at (snd x)" if "x \<in> set js" "?P x" for x
    using find_sorted_least[OF sorts_by_event_sorted[OF s] f, of x] that sorts_by_event_set[OF s]
    by simp
  show ?thesis using that[OF 1 f 2 3] by blast
qed

lemma spec_selected_row:
  assumes s: "sorts_by_event srt" and k: "k \<in> (\<lambda>j. email (fst j)) ` set js"
  obtains j where "spec_candidate srt js k = Some j"
    and "j \<in> set js" and "email (fst j) = k"
    and "\<And>x. x \<in> set js \<Longrightarrow> email (fst x) = k \<Longrightarrow> event_created_at (snd j) \<le> event_created_at (snd x)"
proof -
  let ?g = "filter (\<lambda>j. email (fst j) = k) js"
  have set_g: "set (srt ?g) = set ?g" by (rule sorts_by_event_set[OF s])
  from k have "set ?g \<noteq> {}" by auto
  then have "srt ?g \<noteq> []" using set_g by auto
  then obtain j rest where jr: "srt ?g = j # rest" by (cases "srt ?g") auto
  then have 1: "spec_candidate srt js k = Some j" by (simp add: spec_candidate_def)
  have "j \<in> set ?g" using jr set_g by (metis list.set_intros(1))
  then have 2: "j \<in> set js" "email (fst j) = k" by auto
  have srt_g: "sorted (map (\<lambda>j. event_created_at (snd j)) (j # rest))"
    using sorts_by_event_sorted[OF s, of ?g] jr by simp
  have 3: "event_created_at (snd j) \<le> event_created_at (snd x)" if "x \<in> set js" "email (fst x) = k" for x
  proof -
    have "x \<in> set (j # rest)" using that jr set_g by auto
    then show ?thesis using srt_g by auto
  qed
  show ?thesis using that[OF 1 2 3] by blast
qed

lemma find_filter_hd:
  "List.find P ys = (case filter P ys of [] \<Rightarrow> None | x # _ \<Rightarrow> Some x)"
  by (induction ys) auto

lemma set_map_filter_iff:
  "x \<in> set (List.map_filter f ks) \<longleftrightarrow> (\<exists>k \<in> set ks. f k = Some x)"
  by (induction ks) (auto simp: map_filter_simps split: option.splits)

lemma spec_candidate_sort_values:
  "spec_candidate sort_values js k =
     List.find (\<lambda>j. email (fst j) = k) (drop_duplicates (sort_values js))"
proof -
  let ?P = "\<lambda>j. email (fst j) = k"
  have "filter ?P (sort_values js) = sort_values (filter ?P js)"
    by (simp add: sort_values_def filter_sort)
  then have "List.find ?P (sort_values js) = spec_candidate sort_values js k"
    by (simp add: spec_candidate_def find_filter_hd[of ?P "sort_values js"])
  then show ?thesis by (simp add: find_drop_duplicates)
qed

lemma set_spec_candidates_sort_values:
  "set (spec_candidates sort_values js) = set (drop_duplicates (sort_values js))"
proof -
  let ?dd = "drop_duplicates (sort_values js)"
  let ?key = "\<lambda>j. email (fst j)"
  have keys: "?key ` set ?dd = ?key ` set js"
    using emails_drop_duplicates[of "sort_values js"]
      sorts_by_event_set[OF sorts_by_event_sort_values, of js]
    by (simp add: image_image)
  have "x \<in> set (spec_candidates sort_values js) \<longleftrightarrow> x \<in> set ?dd" for x
  proof
    assume "x \<in> set (spec_candidates sort_values js)"
    then obtain k where "spec_candidate sort_values js k = Some x"
      by (auto simp: spec_candidates_def set_map_filter_iff)
    then show "x \<in> set ?dd"
      using find_Some_set[of "\<lambda>j. email (fst j) = k" ?dd x]
      by (simp add: spec_candidate_sort_values)
  next
    assume x: "x \<in> set ?dd"
    then have "List.find (\<lambda>j. ?key j = ?key x) ?dd = Some x"
      using find_distinct_key[OF distinct_drop_duplicates, of x "sort_values js"] by simp
    then have "spec_candidate sort_values js (?key x) = Some x"
      by (simp add: spec_candidate_sort_values)
    moreover have "?key x \<in> ?key ` set js" using x keys by blast
    ultimately show "x \<in> set (spec_candidates sort_values js)"
      by (force simp: spec_candidates_def set_map_filter_iff)
  qed
  then show ?thesis by blast
qed

lemma filter_non_negative_with_speed:
  "filter (\<lambda>r. Q (fst r)) (non_negative (with_speed js)) = non_negative (with_speed (filter Q js))"
  by (induction js) (auto simp: non_negative_def with_speed_def)

section \<open>Facts about the rounding to double precision\<close>























section \<open>Facts about the presentation\<close>

lemma py_int_of_int: "py_int (of_int n) = n"
  by (simp add: py_int_def)

lemma dashboard_days_hours_floor:
  "dashboard_days_hours m =
     (\<lfloor>total_seconds m / 86400\<rfloor>,
      \<lfloor>(total_seconds m - 86400 * of_int \<lfloor>total_seconds m / 86400\<rfloor>) / 3600\<rfloor>)"
  by (simp add: dashboard_days_hours_def Let_def py_floordiv_def py_mod_def py_int_of_int)

lemma cli_days_hours_floor:
  "\<exists>minutes. cli_days_hours_minutes m =
     (\<lfloor>total_seconds m / 86400\<rfloor>,
      \<lfloor>(total_seconds m - 86400 * of_int \<lfloor>total_seconds m / 86400\<rfloor>) / 3600\<rfloor>, minutes)"
  by (simp add: cli_days_hours_minutes_def Let_def py_floordiv_def py_mod_def py_int_of_int)

lemma hours_range:
  fixes ts :: rat
  shows "0 \<le> \<lfloor>(ts - 86400 * of_int \<lfloor>ts / 86400\<rfloor>) / 3600\<rfloor>
       \<and> \<lfloor>(ts - 86400 * of_int \<lfloor>ts / 86400\<rfloor>) / 3600\<rfloor> < 24"
proof -
  let ?d = "\<lfloor>ts / 86400\<rfloor>"
  have "of_int ?d \<le> ts / 86400" "ts / 86400 < of_int ?d + 1"
    by linarith+
  then have "86400 * of_int ?d \<le> ts" "ts < 86400 * of_int ?d + 86400"
    by (simp_all add: field_simps)
  then have "0 \<le> (ts - 86400 * of_int ?d) / 3600" "(ts - 86400 * of_int ?d) / 3600 < 24"
    by simp_all
  then show ?thesis
    by (simp add: floor_less_iff)
qed

lemma whole_seconds:
  fixes s :: int
  shows "\<lfloor>(of_int s :: rat) / 86400\<rfloor> = s div 86400"
    and "\<lfloor>((of_int s :: rat) - 86400 * of_int \<lfloor>(of_int s :: rat) / 86400\<rfloor>) / 3600\<rfloor> = (s mod 86400) div 3600"
proof -
  show d: "\<lfloor>(of_int s :: rat) / 86400\<rfloor> = s div 86400"
    using floor_divide_of_int_eq[of s 86400, where ?'a = rat] by simp
  have "s - 86400 * (s div 86400) = s mod 86400"
    by (simp add: minus_mult_div_eq_mod)
  then have "(of_int (s mod 86400) :: rat) = of_int s - 86400 * of_int (s div 86400)"
    by (metis of_int_diff of_int_mult of_int_numeral)
  then show "\<lfloor>((of_int s :: rat) - 86400 * of_int \<lfloor>(of_int s :: rat) / 86400\<rfloor>) / 3600\<rfloor> = (s mod 86400) div 3600"
    using floor_divide_of_int_eq[of "s mod 86400" 3600, where ?'a = rat] by (simp only: d of_int_numeral)
qed

section \<open>Facts about the event fetcher\<close>

lemma process_attendees_eq:
  "process_attendees c as acc = acc @ map (\<lambda>a. (att_email a, c)) (filter (\<lambda>a. \<not> flag (att_self a) \<and> \<not> flag (att_resource a)) as)"
  by (induction as arbitrary: acc) auto

lemma process_events_cli_eq:
  "process_events_cli evs acc =
     acc @ concat (map (\<lambda>ev. case created ev of
                               None \<Rightarrow> []
                             | Some c \<Rightarrow> if c = [] then []
                                 else map (\<lambda>a. (att_email a, c)) (filter (\<lambda>a. \<not> flag (att_self a) \<and> \<not> flag (att_resource a)) (case attendees ev of None \<Rightarrow> [] | Some as \<Rightarrow> as)))
                       evs)"
  by (induction evs arbitrary: acc) (auto simp: process_attendees_eq split: option.splits)

lemma process_events_dashboard_eq:
  "process_events_dashboard evs acc = process_events_cli evs acc"
  by (induction evs arbitrary: acc) (auto simp: process_attendees_eq split: option.splits)

lemma emails_process_events_cli:
  "map fst (process_events_cli evs []) =
     concat (map (\<lambda>ev. map att_email (filter (\<lambda>a. \<not> flag (att_self a) \<and> \<not> flag (att_resource a)) (case attendees ev of None \<Rightarrow> [] | Some as \<Rightarrow> as)))
                 (filter (\<lambda>ev. created ev \<noteq> None \<and> created ev \<noteq> Some []) evs))"
  unfolding process_events_cli_eq
  by (induction evs) (auto simp: comp_def split: option.splits)

lemma process_events_cli_Nil:
  assumes "\<forall>ev \<in> set evs. created ev = None \<or> created ev = Some []
             \<or> (\<forall>a \<in> set (case attendees ev of None \<Rightarrow> [] | Some as \<Rightarrow> as). flag (att_self a) \<or> flag (att_resource a))"
  shows "process_events_cli evs [] = []"
  using assms
proof (induction evs)
  case Nil
  show ?case by simp
next
  case (Cons ev evs)
  have rest: "process_events_cli evs [] = []" using Cons by simp
  show ?case
  proof (cases "created ev")
    case None
    then show ?thesis using rest by simp
  next
    case (Some c)
    show ?thesis
    proof (cases "c = []")
      case True
      then show ?thesis using Some rest by simp
    next
      case False
      then have "\<forall>a \<in> set (case attendees ev of None \<Rightarrow> [] | Some as \<Rightarrow> as).
                   flag (att_self a) \<or> flag (att_resource a)"
        using Cons.prems Some by simp
      then have "process_attendees c (case attendees ev of None \<Rightarrow> [] | Some as \<Rightarrow> as) [] = []"
        by (auto simp: process_attendees_eq filter_empty_conv)
      then show ?thesis using Some False rest by simp
    qed
  qed
qed

lemma to_datetime_column_emails:
  "to_datetime_column to_datetime rs = Inr df \<Longrightarrow> map attendee_email df = map fst rs"
  by (induction rs arbitrary: df) (auto split: option.splits sum.splits)

lemma data_frame_emails:
  "data_frame to_datetime rs = Inr df \<Longrightarrow> map attendee_email df = map fst rs"
  by (auto simp: data_frame_def to_datetime_column_emails split: if_splits)

lemma dashboard_fetch_catches_every_exception:
  assumes "get_credentials w = Inr creds"
  shows "(\<forall>e. dashboard_try_block to_datetime w = Inl e \<longrightarrow>
            get_google_calendar_events_dashboard to_datetime w = Inr ([], Some e))
       \<and> (\<forall>df. dashboard_try_block to_datetime w = Inr df \<longrightarrow>
            get_google_calendar_events_dashboard to_datetime w = Inr (df, None))
       \<and> (\<forall>e. get_google_calendar_events_dashboard to_datetime w \<noteq> Inl e)"
  using assms
  by (cases "dashboard_try_block to_datetime w")
     (simp_all add: get_google_calendar_events_dashboard_def)

lemma cli_fetch_catches_http_error:
  assumes "get_credentials w = Inr creds"
    and "cli_try_block to_datetime w = Inl HttpError"
  shows "get_google_calendar_events_cli to_datetime w = Inr ([], Some HttpError)"
  using assms by (simp add: get_google_calendar_events_cli_def)

lemma credentials_error_propagates:
  assumes "get_credentials w = Inl e"
  shows "get_google_calendar_events_cli to_datetime w = Inl e
       \<and> get_google_calendar_events_dashboard to_datetime w = Inl e"
  using assms
  by (simp add: get_google_calendar_events_cli_def get_google_calendar_events_dashboard_def)

section \<open>The claims about the aggregation\<close>

text \<open>
  Claim C3. Every row of the final records has a duration that is not negative, the
  duration being \<open>event_created_at - created_at\<close> of the row; so an attendance created
  strictly before its lead never appears there. Only negative durations are discarded:
  every candidate (every row of \<open>first_call\<close>) whose event is not before its lead,
  a zero duration included, is in the final records.
\<close>

theorem retained_durations_non_negative:
  assumes "sorts_by_event srt"
  shows "(\<forall>r \<in> set (report_records (aggregate_with srt fsum df_leads df_events)).
            snd r = event_created_at (snd (fst r)) - created_at (fst (fst r)) \<and> 0 \<le> snd r)
       \<and> (\<forall>l e d. event_created_at e < created_at l \<longrightarrow>
            ((l, e), d) \<notin> set (report_records (aggregate_with srt fsum df_leads df_events)))
       \<and> (\<forall>j \<in> set (first_call srt df_leads df_events).
            created_at (fst j) \<le> event_created_at (snd j) \<longrightarrow>
            (j, event_created_at (snd j) - created_at (fst j))
              \<in> set (report_records (aggregate_with srt fsum df_leads df_events)))"
  unfolding report_records_aggregate_with[OF assms]
  by (auto simp: non_negative_def with_speed_def speed_def)

theorem retained_durations_non_negative_witness:
  "sorts_by_event sort_values
   \<and> (\<lparr>email = Some ''a@x.com'', created_at = 10\<rparr>,
       \<lparr>attendee_email = Some ''a@x.com'', event_created_at = 10\<rparr>)
       \<in> set (first_call sort_values
           [\<lparr>email = Some ''a@x.com'', created_at = 10\<rparr>, \<lparr>email = Some ''b@x.com'', created_at = 10\<rparr>]
           [\<lparr>attendee_email = Some ''a@x.com'', event_created_at = 10\<rparr>,
            \<lparr>attendee_email = Some ''b@x.com'', event_created_at = 9\<rparr>])
   \<and> ((\<lparr>email = Some ''a@x.com'', created_at = 10\<rparr>,
        \<lparr>attendee_email = Some ''a@x.com'', event_created_at = 10\<rparr>), 0)
       \<in> set (report_records (aggregate_with sort_values sequential_sum
           [\<lparr>email = Some ''a@x.com'', created_at = 10\<rparr>, \<lparr>email = Some ''b@x.com'', created_at = 10\<rparr>]
           [\<lparr>attendee_email = Some ''a@x.com'', event_created_at = 10\<rparr>,
            \<lparr>attendee_email = Some ''b@x.com'', event_created_at = 9\<rparr>]))
   \<and> ((\<lparr>email = Some ''b@x.com'', created_at = 10\<rparr>,
        \<lparr>attendee_email = Some ''b@x.com'', event_created_at = 9\<rparr>), - 1)
       \<notin> set (report_records (aggregate_with sort_values sequential_sum
           [\<lparr>email = Some ''a@x.com'', created_at = 10\<rparr>, \<lparr>email = Some ''b@x.com'', created_at = 10\<rparr>]
           [\<lparr>attendee_email = Some ''a@x.com'', event_created_at = 10\<rparr>,
            \<lparr>attendee_email = Some ''b@x.com'', event_created_at = 9\<rparr>]))"
  using retained_durations_non_negative[OF sorts_by_event_sort_values,
      of sequential_sum "[\<lparr>email = Some ''a@x.com'', created_at = 10\<rparr>, \<lparr>email = Some ''b@x.com'', created_at = 10\<rparr>]"
         "[\<lparr>attendee_email = Some ''a@x.com'', event_created_at = 10\<rparr>,
           \<lparr>attendee_email = Some ''b@x.com'', event_created_at = 9\<rparr>]"]
    sorts_by_event_sort_values
  by (simp add: first_call_def merge_def sort_values_def drop_duplicates_def)

text \<open>
  Claim C4. When the lead frame or the attendance frame is empty, the run ends at once
  with the insufficient-data notice (not with the notice of an empty join): the sample
  count is 0, there is no record and no mean.
\<close>

theorem empty_input_insufficient_data:
  assumes "df_leads = [] \<or> df_events = []"
  shows "aggregate_with srt fsum df_leads df_events = InsufficientData
       \<and> sample_count (aggregate_with srt fsum df_leads df_events) = 0
       \<and> report_records (aggregate_with srt fsum df_leads df_events) = []
       \<and> report_mean (aggregate_with srt fsum df_leads df_events) = None"
  using assms by (auto simp: aggregate_with_def sample_count_def)

theorem empty_input_insufficient_data_witness:
  "(([] :: lead list) = [] \<or> [\<lparr>attendee_email = Some ''a@x.com'', event_created_at = 5\<rparr>] = [])
   \<and> aggregate_with sort_values sequential_sum [] [\<lparr>attendee_email = Some ''a@x.com'', event_created_at = 5\<rparr>]
       = InsufficientData
   \<and> sample_count (aggregate_with sort_values sequential_sum []
        [\<lparr>attendee_email = Some ''a@x.com'', event_created_at = 5\<rparr>]) = 0"
  using empty_input_insufficient_data[of "[]"
      "[\<lparr>attendee_email = Some ''a@x.com'', event_created_at = 5\<rparr>]" sort_values sequential_sum]
  by (simp add: sample_count_def)




text \<open>
  Claim C7. The join pairs a lead with an attendance exactly when the two e-mail fields
  are equal as they are, with no case folding and no trimming; when no lead and
  attendance have equal e-mail fields (as when they differ in letter case or in
  surrounding blanks only) the sample count is 0.
\<close>

theorem join_exact_email_match:
  assumes "sorts_by_event srt"
  shows "(\<forall>l e. (l, e) \<in> set (merge df_leads df_events) \<longleftrightarrow>
            l \<in> set df_leads \<and> e \<in> set df_events \<and> email l = attendee_email e)
       \<and> ((\<forall>l \<in> set df_leads. \<forall>e \<in> set df_events. email l \<noteq> attendee_email e)
            \<longrightarrow> sample_count (aggregate_with srt fsum df_leads df_events) = 0)"
proof -
  have "sample_count (aggregate_with srt fsum df_leads df_events) = 0"
    if "\<forall>l \<in> set df_leads. \<forall>e \<in> set df_events. email l \<noteq> attendee_email e"
  proof -
    have "merge df_leads df_events = []" using that by (simp add: merge_Nil_iff)
    then have "first_call srt df_leads df_events = []"
      using assms by (simp add: first_call_Nil_iff)
    then show ?thesis
      by (simp add: sample_count_def report_records_aggregate_with[OF assms]
          non_negative_def with_speed_def)
  qed
  then show ?thesis by (simp add: set_merge)
qed

theorem join_exact_email_match_witness:
  "sorts_by_event sort_values
   \<and> email \<lparr>email = Some ''Ana@x.com'', created_at = 0\<rparr>
       \<noteq> attendee_email \<lparr>attendee_email = Some ''ana@x.com'', event_created_at = 5\<rparr>
   \<and> email \<lparr>email = Some ''Ana@x.com'', created_at = 0\<rparr>
       \<noteq> attendee_email \<lparr>attendee_email = Some '' Ana@x.com '', event_created_at = 7\<rparr>
   \<and> sample_count (aggregate_with sort_values sequential_sum
        [\<lparr>email = Some ''Ana@x.com'', created_at = 0\<rparr>]
        [\<lparr>attendee_email = Some ''ana@x.com'', event_created_at = 5\<rparr>,
         \<lparr>attendee_email = Some '' Ana@x.com '', event_created_at = 7\<rparr>]) = 0"
  using join_exact_email_match[OF sorts_by_event_sort_values,
        of "[\<lparr>email = Some ''Ana@x.com'', created_at = 0\<rparr>]"
           "[\<lparr>attendee_email = Some ''ana@x.com'', event_created_at = 5\<rparr>,
             \<lparr>attendee_email = Some '' Ana@x.com '', event_created_at = 7\<rparr>]"]
    sorts_by_event_sort_values
  by simp

text \<open>
  Claim C1, as the code has it. The candidate of a lead is its earliest matching
  attendance among all its matches, whatever the sign of the duration, and the filter
  comes after the choice. For a lead \<open>l\<close> that is the only lead with its e-mail and has
  at least one matching attendance, there is a matching attendance \<open>e\<close> with the least
  \<open>event_created_at\<close> of all the matches; when \<open>e\<close> is not before the creation of the
  lead, the final records hold exactly one row for that e-mail, the row of \<open>l\<close> and
  \<open>e\<close>; when \<open>e\<close> is before the creation of the lead, the final records hold no row
  for that e-mail, also when later matches are after the creation.
\<close>

theorem earliest_match_then_filter:
  assumes "sorts_by_event srt"
    and "l \<in> set df_leads"
    and "\<forall>l' \<in> set df_leads. email l' = email l \<longrightarrow> l' = l"
    and "e0 \<in> set df_events" and "attendee_email e0 = email l"
  shows "\<exists>e \<in> set df_events. attendee_email e = email l
           \<and> (\<forall>e' \<in> set df_events. attendee_email e' = email l \<longrightarrow>
                 event_created_at e \<le> event_created_at e')
           \<and> filter (\<lambda>r. email (fst (fst r)) = email l)
                (report_records (aggregate_with srt fsum df_leads df_events))
               = (if created_at l \<le> event_created_at e
                  then [((l, e), event_created_at e - created_at l)] else [])"
proof -
  let ?js = "merge df_leads df_events"
  let ?P = "\<lambda>x. email (fst x) = email l"
  have "(l, e0) \<in> set ?js" using assms(2,4,5) by (simp add: set_merge)
  then have "email l \<in> (\<lambda>j. email (fst j)) ` set ?js" by force
  then obtain j where j: "filter ?P (drop_duplicates (srt ?js)) = [j]"
      "j \<in> set ?js" "email (fst j) = email l"
      "\<And>x. x \<in> set ?js \<Longrightarrow> email (fst x) = email l \<Longrightarrow>
         event_created_at (snd j) \<le> event_created_at (snd x)"
    using impl_selected_row[OF assms(1), of "email l" ?js] by metis
  obtain l' e where le: "j = (l', e)" by (cases j)
  have mem: "l' \<in> set df_leads" "e \<in> set df_events" "email l' = attendee_email e"
    using j(2) le by (simp_all add: set_merge)
  have "l' = l" using assms(3) mem(1) j(3) le by simp
  then have je: "j = (l, e)" using le by simp
  have ae: "attendee_email e = email l" using mem(3) \<open>l' = l\<close> by simp
  have least: "event_created_at e \<le> event_created_at e'"
    if "e' \<in> set df_events" "attendee_email e' = email l" for e'
  proof -
    have "(l, e') \<in> set ?js" using that assms(2) by (simp add: set_merge)
    then show ?thesis using j(4)[of "(l, e')"] je by simp
  qed
  have "filter (\<lambda>r. ?P (fst r)) (report_records (aggregate_with srt fsum df_leads df_events))
        = non_negative (with_speed [j])"
    using j(1)
    by (simp add: report_records_aggregate_with[OF assms(1)]
        filter_non_negative_with_speed[of "\<lambda>x. email (fst x) = email l"] first_call_def)
  also have "\<dots> = (if created_at l \<le> event_created_at e
                   then [((l, e), event_created_at e - created_at l)] else [])"
    by (simp add: je non_negative_def with_speed_def speed_def)
  finally show ?thesis using mem(2) ae least by blast
qed

theorem earliest_match_then_filter_witness:
  "sorts_by_event sort_values
   \<and> \<lparr>email = Some ''a@x.com'', created_at = 10\<rparr> \<in> set [\<lparr>email = Some ''a@x.com'', created_at = 10\<rparr>,
      \<lparr>email = Some ''b@x.com'', created_at = 10\<rparr>]
   \<and> distinct (map email [\<lparr>email = Some ''a@x.com'', created_at = 10\<rparr>,
      \<lparr>email = Some ''b@x.com'', created_at = 10\<rparr>])
   \<and> \<lparr>attendee_email = Some ''a@x.com'', event_created_at = 30\<rparr> \<in> set [\<lparr>attendee_email = Some ''a@x.com'', event_created_at = 30\<rparr>,
      \<lparr>attendee_email = Some ''a@x.com'', event_created_at = 20\<rparr>,
      \<lparr>attendee_email = Some ''b@x.com'', event_created_at = 5\<rparr>,
      \<lparr>attendee_email = Some ''b@x.com'', event_created_at = 40\<rparr>]
   \<and> attendee_email \<lparr>attendee_email = Some ''a@x.com'', event_created_at = 30\<rparr> = email \<lparr>email = Some ''a@x.com'', created_at = 10\<rparr>
   \<and> filter (\<lambda>r. email (fst (fst r)) = email \<lparr>email = Some ''a@x.com'', created_at = 10\<rparr>) (report_records (aggregate_with sort_values sequential_sum
     [\<lparr>email = Some ''a@x.com'', created_at = 10\<rparr>,
      \<lparr>email = Some ''b@x.com'', created_at = 10\<rparr>]
     [\<lparr>attendee_email = Some ''a@x.com'', event_created_at = 30\<rparr>,
      \<lparr>attendee_email = Some ''a@x.com'', event_created_at = 20\<rparr>,
      \<lparr>attendee_email = Some ''b@x.com'', event_created_at = 5\<rparr>,
      \<lparr>attendee_email = Some ''b@x.com'', event_created_at = 40\<rparr>]))
       = [((\<lparr>email = Some ''a@x.com'', created_at = 10\<rparr>, \<lparr>attendee_email = Some ''a@x.com'', event_created_at = 20\<rparr>), 10)]
   \<and> \<lparr>email = Some ''b@x.com'', created_at = 10\<rparr> \<in> set [\<lparr>email = Some ''a@x.com'', created_at = 10\<rparr>,
      \<lparr>email = Some ''b@x.com'', created_at = 10\<rparr>]
   \<and> \<lparr>attendee_email = Some ''b@x.com'', event_created_at = 5\<rparr> \<in> set [\<lparr>attendee_email = Some ''a@x.com'', event_created_at = 30\<rparr>,
      \<lparr>attendee_email = Some ''a@x.com'', event_created_at = 20\<rparr>,
      \<lparr>attendee_email = Some ''b@x.com'', event_created_at = 5\<rparr>,
      \<lparr>attendee_email = Some ''b@x.com'', event_created_at = 40\<rparr>]
   \<and> attendee_email \<lparr>attendee_email = Some ''b@x.com'', event_created_at = 5\<rparr> = email \<lparr>email = Some ''b@x.com'', created_at = 10\<rparr>
   \<and> filter (\<lambda>r. email (fst (fst r)) = email \<lparr>email = Some ''b@x.com'', created_at = 10\<rparr>) (report_records (aggregate_with sort_values sequential_sum
     [\<lparr>email = Some ''a@x.com'', created_at = 10\<rparr>,
      \<lparr>email = Some ''b@x.com'', created_at = 10\<rparr>]
     [\<lparr>attendee_email = Some ''a@x.com'', event_created_at = 30\<rparr>,
      \<lparr>attendee_email = Some ''a@x.com'', event_created_at = 20\<rparr>,
      \<lparr>attendee_email = Some ''b@x.com'', event_created_at = 5\<rparr>,
      \<lparr>attendee_email = Some ''b@x.com'', event_created_at = 40\<rparr>]))
       = []"
proof -
  let ?L = "[\<lparr>email = Some ''a@x.com'', created_at = 10\<rparr>,
      \<lparr>email = Some ''b@x.com'', created_at = 10\<rparr>]"
  let ?E = "[\<lparr>attendee_email = Some ''a@x.com'', event_created_at = 30\<rparr>,
      \<lparr>attendee_email = Some ''a@x.com'', event_created_at = 20\<rparr>,
      \<lparr>attendee_email = Some ''b@x.com'', event_created_at = 5\<rparr>,
      \<lparr>attendee_email = Some ''b@x.com'', event_created_at = 40\<rparr>]"
  let ?la = "\<lparr>email = Some ''a@x.com'', created_at = 10\<rparr>"
  let ?lb = "\<lparr>email = Some ''b@x.com'', created_at = 10\<rparr>"
  have s: "sorts_by_event sort_values" by (rule sorts_by_event_sort_values)
  have a1: "?la \<in> set ?L" and b1: "?lb \<in> set ?L" by simp_all
  have a2: "\<forall>l' \<in> set ?L. email l' = email ?la \<longrightarrow> l' = ?la"
    and b2: "\<forall>l' \<in> set ?L. email l' = email ?lb \<longrightarrow> l' = ?lb" by simp_all
  have a3: "\<lparr>attendee_email = Some ''a@x.com'', event_created_at = 30\<rparr> \<in> set ?E" and b3: "\<lparr>attendee_email = Some ''b@x.com'', event_created_at = 5\<rparr> \<in> set ?E" by simp_all
  have a4: "attendee_email \<lparr>attendee_email = Some ''a@x.com'', event_created_at = 30\<rparr> = email ?la" and b4: "attendee_email \<lparr>attendee_email = Some ''b@x.com'', event_created_at = 5\<rparr> = email ?lb" by simp_all
  have d: "distinct (map email ?L)" by simp
  have ra: "filter (\<lambda>r. email (fst (fst r)) = email ?la) (report_records (aggregate_with sort_values sequential_sum ?L ?E))
       = [((?la, \<lparr>attendee_email = Some ''a@x.com'', event_created_at = 20\<rparr>), 10)]" by code_simp
  have rb: "filter (\<lambda>r. email (fst (fst r)) = email ?lb) (report_records (aggregate_with sort_values sequential_sum ?L ?E))
       = []" by code_simp
  from earliest_match_then_filter[OF s a1 a2 a3 a4] earliest_match_then_filter[OF s b1 b2 b3 b4]
  show ?thesis using s a1 a3 a4 b1 b3 b4 d ra rb by blast
qed

text \<open>
  The claim C1 as it is worded fails: with matches at 5 and at 20 for a lead created
  at 10, the match at 20 has a duration that is not negative, yet the run ends with the
  notice that no lead has a valid call and no row is retained.
\<close>

theorem not_min_of_non_negative_matches:
  "aggregate [\<lparr>email = Some ''a@x.com'', created_at = 10\<rparr>]
     [\<lparr>attendee_email = Some ''a@x.com'', event_created_at = 5\<rparr>,
      \<lparr>attendee_email = Some ''a@x.com'', event_created_at = 20\<rparr>] = NoValidCall
   \<and> attendee_email \<lparr>attendee_email = Some ''a@x.com'', event_created_at = 20\<rparr>
       = email \<lparr>email = Some ''a@x.com'', created_at = 10\<rparr>
   \<and> 0 \<le> event_created_at \<lparr>attendee_email = Some ''a@x.com'', event_created_at = 20\<rparr>
          - created_at \<lparr>email = Some ''a@x.com'', created_at = 10\<rparr>"
  by (simp add: aggregate_def aggregate_with_def first_call_def merge_def sort_values_def
      drop_duplicates_def with_speed_def non_negative_def speed_def)

text \<open>
  Claim C5. Sorting the whole joined set by \<^verbatim>\<open>event_created_at\<close> and keeping the first
  row of every e-mail selects, for every e-mail \<open>k\<close> of the joined set, exactly one
  row; that row belongs to the group of \<open>k\<close> and its \<^verbatim>\<open>event_created_at\<close> is the least
  of the group. The candidate of the per-group description is a row of the same group
  with the same \<^verbatim>\<open>event_created_at\<close>, whatever order the two sorts give to equal
  keys; with the stable sort on both sides the two selections are the same set of rows.
\<close>

theorem selection_refines_per_group:
  assumes "sorts_by_event srt" and "sorts_by_event srt'"
    and "k \<in> (\<lambda>j. email (fst j)) ` set js"
  shows "\<exists>j j'. filter (\<lambda>x. email (fst x) = k) (drop_duplicates (srt js)) = [j]
           \<and> spec_candidate srt' js k = Some j'
           \<and> j \<in> set js \<and> email (fst j) = k \<and> j' \<in> set js \<and> email (fst j') = k
           \<and> (\<forall>x \<in> set js. email (fst x) = k \<longrightarrow>
                 event_created_at (snd j) \<le> event_created_at (snd x))
           \<and> event_created_at (snd j') = event_created_at (snd j)
           \<and> set (spec_candidates sort_values js) = set (drop_duplicates (sort_values js))"
proof -
  obtain j where j: "filter (\<lambda>x. email (fst x) = k) (drop_duplicates (srt js)) = [j]"
      "j \<in> set js" "email (fst j) = k"
      "\<And>x. x \<in> set js \<Longrightarrow> email (fst x) = k \<Longrightarrow> event_created_at (snd j) \<le> event_created_at (snd x)"
    using impl_selected_row[OF assms(1,3)] by metis
  obtain j' where j': "spec_candidate srt' js k = Some j'"
      "j' \<in> set js" "email (fst j') = k"
      "\<And>x. x \<in> set js \<Longrightarrow> email (fst x) = k \<Longrightarrow> event_created_at (snd j') \<le> event_created_at (snd x)"
    using spec_selected_row[OF assms(2,3)] by metis
  have "event_created_at (snd j') = event_created_at (snd j)"
    using j(4)[OF j'(2,3)] j'(4)[OF j(2,3)] by simp
  then show ?thesis
    using j j' set_spec_candidates_sort_values by blast
qed

theorem selection_refines_per_group_witness:
  "sorts_by_event sort_values
   \<and> Some ''a@x.com'' \<in> (\<lambda>j. email (fst j)) ` set [(\<lparr>email = Some ''b@x.com'', created_at = 10\<rparr>,
       \<lparr>attendee_email = Some ''b@x.com'', event_created_at = 30\<rparr>),
      (\<lparr>email = Some ''a@x.com'', created_at = 10\<rparr>,
       \<lparr>attendee_email = Some ''a@x.com'', event_created_at = 20\<rparr>),
      (\<lparr>email = Some ''a@x.com'', created_at = 10\<rparr>,
       \<lparr>attendee_email = Some ''a@x.com'', event_created_at = 10\<rparr>)]
   \<and> filter (\<lambda>x. email (fst x) = Some ''a@x.com'') (drop_duplicates (sort_values [(\<lparr>email = Some ''b@x.com'', created_at = 10\<rparr>,
       \<lparr>attendee_email = Some ''b@x.com'', event_created_at = 30\<rparr>),
      (\<lparr>email = Some ''a@x.com'', created_at = 10\<rparr>,
       \<lparr>attendee_email = Some ''a@x.com'', event_created_at = 20\<rparr>),
      (\<lparr>email = Some ''a@x.com'', created_at = 10\<rparr>,
       \<lparr>attendee_email = Some ''a@x.com'', event_created_at = 10\<rparr>)]))
       = [(\<lparr>email = Some ''a@x.com'', created_at = 10\<rparr>, \<lparr>attendee_email = Some ''a@x.com'', event_created_at = 10\<rparr>)]
   \<and> spec_candidate sort_values [(\<lparr>email = Some ''b@x.com'', created_at = 10\<rparr>,
       \<lparr>attendee_email = Some ''b@x.com'', event_created_at = 30\<rparr>),
      (\<lparr>email = Some ''a@x.com'', created_at = 10\<rparr>,
       \<lparr>attendee_email = Some ''a@x.com'', event_created_at = 20\<rparr>),
      (\<lparr>email = Some ''a@x.com'', created_at = 10\<rparr>,
       \<lparr>attendee_email = Some ''a@x.com'', event_created_at = 10\<rparr>)] (Some ''a@x.com'')
       = Some (\<lparr>email = Some ''a@x.com'', created_at = 10\<rparr>, \<lparr>attendee_email = Some ''a@x.com'', event_created_at = 10\<rparr>)"
proof -
  let ?js = "[(\<lparr>email = Some ''b@x.com'', created_at = 10\<rparr>,
       \<lparr>attendee_email = Some ''b@x.com'', event_created_at = 30\<rparr>),
      (\<lparr>email = Some ''a@x.com'', created_at = 10\<rparr>,
       \<lparr>attendee_email = Some ''a@x.com'', event_created_at = 20\<rparr>),
      (\<lparr>email = Some ''a@x.com'', created_at = 10\<rparr>,
       \<lparr>attendee_email = Some ''a@x.com'', event_created_at = 10\<rparr>)]"
  have s: "sorts_by_event sort_values" by (rule sorts_by_event_sort_values)
  have k: "Some ''a@x.com'' \<in> (\<lambda>j. email (fst j)) ` set ?js" by simp
  have i: "filter (\<lambda>x. email (fst x) = Some ''a@x.com'') (drop_duplicates (sort_values ?js))
       = [(\<lparr>email = Some ''a@x.com'', created_at = 10\<rparr>, \<lparr>attendee_email = Some ''a@x.com'', event_created_at = 10\<rparr>)]" by code_simp
  have sp: "spec_candidate sort_values ?js (Some ''a@x.com'') = Some (\<lparr>email = Some ''a@x.com'', created_at = 10\<rparr>, \<lparr>attendee_email = Some ''a@x.com'', event_created_at = 10\<rparr>)" by code_simp
  from selection_refines_per_group[OF s s k]
  show ?thesis using s k i sp by blast
qed

section \<open>The claim about the presentation\<close>

text \<open>
  Claim C8. For a report with a sample count above 0 there is a mean \<open>m\<close>, a number of
  nanoseconds, and with \<open>total_seconds = m / 1000000000\<close>, the mean in seconds, both
  programs show \<open>days = \<lfloor>total_seconds / 86400\<rfloor>\<close> and, as hours, the floor of the
  rest of \<open>total_seconds\<close> after the whole days divided by 3600. The hours are between 0
  and 23. When the mean is a whole number \<open>s\<close> of seconds these are \<open>s div 86400\<close> and
  \<open>(s mod 86400) div 3600\<close>; a mean of two days and a half shows as 2 days and 12
  hours.
\<close>

theorem presenter_days_hours:
  assumes "0 < sample_count rep"
  shows "\<exists>m minutes. report_mean rep = Some m
     \<and> dashboard_metrics rep =
         Some ((\<lfloor>rat_of_int m / 1000000000 / 86400\<rfloor>,
                \<lfloor>(rat_of_int m / 1000000000 - 86400 * rat_of_int \<lfloor>rat_of_int m / 1000000000 / 86400\<rfloor>) / 3600\<rfloor>),
               sample_count rep)
     \<and> cli_result rep =
         Some (sample_count rep, \<lfloor>rat_of_int m / 1000000000 / 86400\<rfloor>,
               \<lfloor>(rat_of_int m / 1000000000 - 86400 * rat_of_int \<lfloor>rat_of_int m / 1000000000 / 86400\<rfloor>) / 3600\<rfloor>,
               minutes)
     \<and> 0 \<le> \<lfloor>(rat_of_int m / 1000000000 - 86400 * rat_of_int \<lfloor>rat_of_int m / 1000000000 / 86400\<rfloor>) / 3600\<rfloor>
     \<and> \<lfloor>(rat_of_int m / 1000000000 - 86400 * rat_of_int \<lfloor>rat_of_int m / 1000000000 / 86400\<rfloor>) / 3600\<rfloor> < 24
     \<and> (\<forall>s. m = s * 1000000000 \<longrightarrow>
           \<lfloor>rat_of_int m / 1000000000 / 86400\<rfloor> = s div 86400
           \<and> \<lfloor>(rat_of_int m / 1000000000 - 86400 * rat_of_int \<lfloor>rat_of_int m / 1000000000 / 86400\<rfloor>) / 3600\<rfloor>
               = (s mod 86400) div 3600)"
proof -
  from assms obtain r where r: "rep = Result r"
    by (cases rep) (simp_all add: sample_count_def)
  define m where "m = mean_duration r"
  have ts: "total_seconds m = rat_of_int m / 1000000000"
    by (simp add: total_seconds_def)
  obtain minutes where mi: "cli_days_hours_minutes m =
     (\<lfloor>rat_of_int m / 1000000000 / 86400\<rfloor>,
      \<lfloor>(rat_of_int m / 1000000000 - 86400 * rat_of_int \<lfloor>rat_of_int m / 1000000000 / 86400\<rfloor>) / 3600\<rfloor>, minutes)"
    using cli_days_hours_floor[of m] unfolding ts by blast
  have 1: "report_mean rep = Some m"
    by (simp add: r m_def)
  have 2: "dashboard_metrics rep = Some ((\<lfloor>rat_of_int m / 1000000000 / 86400\<rfloor>, \<lfloor>(rat_of_int m / 1000000000 - 86400 * rat_of_int \<lfloor>rat_of_int m / 1000000000 / 86400\<rfloor>) / 3600\<rfloor>), sample_count rep)"
    using dashboard_days_hours_floor[of m] unfolding ts
    by (simp add: r sample_count_def m_def)
  have 3: "cli_result rep = Some (sample_count rep, \<lfloor>rat_of_int m / 1000000000 / 86400\<rfloor>, \<lfloor>(rat_of_int m / 1000000000 - 86400 * rat_of_int \<lfloor>rat_of_int m / 1000000000 / 86400\<rfloor>) / 3600\<rfloor>, minutes)"
    using mi by (simp add: r sample_count_def m_def)
  have 4: "0 \<le> \<lfloor>(rat_of_int m / 1000000000 - 86400 * rat_of_int \<lfloor>rat_of_int m / 1000000000 / 86400\<rfloor>) / 3600\<rfloor> \<and> \<lfloor>(rat_of_int m / 1000000000 - 86400 * rat_of_int \<lfloor>rat_of_int m / 1000000000 / 86400\<rfloor>) / 3600\<rfloor> < 24"
    by (rule hours_range)
  have 5: "\<lfloor>rat_of_int m / 1000000000 / 86400\<rfloor> = s div 86400 \<and> \<lfloor>(rat_of_int m / 1000000000 - 86400 * rat_of_int \<lfloor>rat_of_int m / 1000000000 / 86400\<rfloor>) / 3600\<rfloor> = (s mod 86400) div 3600"
    if "m = s * 1000000000" for s
  proof -
    have "rat_of_int m / 1000000000 = rat_of_int s" by (simp add: that)
    then show ?thesis using whole_seconds[of s] by simp
  qed
  show ?thesis
    using 1 2 3 4 5 by blast
qed

theorem presenter_days_hours_witness:
  "0 < sample_count (aggregate_with sort_values sequential_sum
        [\<lparr>email = Some ''a@x.com'', created_at = 0\<rparr>]
        [\<lparr>attendee_email = Some ''a@x.com'', event_created_at = 216000000000000\<rparr>])
   \<and> report_mean (aggregate_with sort_values sequential_sum
        [\<lparr>email = Some ''a@x.com'', created_at = 0\<rparr>]
        [\<lparr>attendee_email = Some ''a@x.com'', event_created_at = 216000000000000\<rparr>])
       = Some 216000000000000
   \<and> dashboard_metrics (aggregate_with sort_values sequential_sum
        [\<lparr>email = Some ''a@x.com'', created_at = 0\<rparr>]
        [\<lparr>attendee_email = Some ''a@x.com'', event_created_at = 216000000000000\<rparr>])
       = Some ((2, 12), 1)
   \<and> cli_result (aggregate_with sort_values sequential_sum
        [\<lparr>email = Some ''a@x.com'', created_at = 0\<rparr>]
        [\<lparr>attendee_email = Some ''a@x.com'', event_created_at = 216000000000000\<rparr>])
       = Some (1, 2, 12, 0)"
proof -
  let ?rep = "(aggregate_with sort_values sequential_sum
        [\<lparr>email = Some ''a@x.com'', created_at = 0\<rparr>]
        [\<lparr>attendee_email = Some ''a@x.com'', event_created_at = 216000000000000\<rparr>])"
  have a: "0 < sample_count ?rep" by code_simp
  have b: "report_mean ?rep = Some 216000000000000" by code_simp
  have c: "dashboard_metrics ?rep = Some ((2, 12), 1)" by code_simp
  have d: "cli_result ?rep = Some (1, 2, 12, 0)" by code_simp
  from presenter_days_hours[OF a] show ?thesis
    using a b c d by blast
qed

section \<open>The claims about the event fetcher\<close>

text \<open>
  Claim C2. The interactive page's fetcher does what the claim says: its handler takes
  every \<^verbatim>\<open>Exception\<close> of the guarded block. The handler of the command-line fetcher
  names \<^verbatim>\<open>HttpError\<close> only: any other exception raised inside its guarded block (the
  service cannot be reached, a calendar has no \<^verbatim>\<open>id\<close>, a timestamp cannot be parsed, the
  frame has no columns) leaves the function, where the claim has it caught and turned
  into an empty frame with a diagnostic, as the interactive page does on the same
  exception.
\<close>

theorem cli_fetch_lets_other_exceptions_out:
  assumes "get_credentials w = Inr creds"
    and "cli_try_block to_datetime w = Inl e"
    and "e \<noteq> HttpError"
  shows "get_google_calendar_events_cli to_datetime w = Inl e
       \<and> (dashboard_try_block to_datetime w = Inl e \<longrightarrow>
            get_google_calendar_events_dashboard to_datetime w = Inr ([], Some e))"
  using assms
  by (simp add: get_google_calendar_events_cli_def get_google_calendar_events_dashboard_def)

theorem cli_fetch_lets_other_exceptions_out_witness:
  "get_credentials
     \<lparr>token_json = Some (Inr \<lparr>valid = True, expired = False, refresh_token = True\<rparr>),
      refresh = Inl RefreshError, run_local_server = Inl TransportError, write_token = None,
      build = None,
      calendar_list = Inl TransportError,
      events_list = (\<lambda>calendar_id. Inr (Some []))\<rparr> = Inr \<lparr>valid = True, expired = False, refresh_token = True\<rparr>
   \<and> cli_try_block (\<lambda>s. if s = ''2024-01-03T12:00:00.000Z'' then Some 1704283200000000000 else None)
     \<lparr>token_json = Some (Inr \<lparr>valid = True, expired = False, refresh_token = True\<rparr>),
      refresh = Inl RefreshError, run_local_server = Inl TransportError, write_token = None,
      build = None,
      calendar_list = Inl TransportError,
      events_list = (\<lambda>calendar_id. Inr (Some []))\<rparr> = Inl TransportError
   \<and> TransportError \<noteq> HttpError
   \<and> get_google_calendar_events_cli (\<lambda>s. if s = ''2024-01-03T12:00:00.000Z'' then Some 1704283200000000000 else None)
     \<lparr>token_json = Some (Inr \<lparr>valid = True, expired = False, refresh_token = True\<rparr>),
      refresh = Inl RefreshError, run_local_server = Inl TransportError, write_token = None,
      build = None,
      calendar_list = Inl TransportError,
      events_list = (\<lambda>calendar_id. Inr (Some []))\<rparr> = Inl TransportError
   \<and> get_google_calendar_events_dashboard (\<lambda>s. if s = ''2024-01-03T12:00:00.000Z'' then Some 1704283200000000000 else None)
     \<lparr>token_json = Some (Inr \<lparr>valid = True, expired = False, refresh_token = True\<rparr>),
      refresh = Inl RefreshError, run_local_server = Inl TransportError, write_token = None,
      build = None,
      calendar_list = Inl TransportError,
      events_list = (\<lambda>calendar_id. Inr (Some []))\<rparr> = Inr ([], Some TransportError)"
proof -
  let ?w = "\<lparr>token_json = Some (Inr \<lparr>valid = True, expired = False, refresh_token = True\<rparr>),
      refresh = Inl RefreshError, run_local_server = Inl TransportError, write_token = None,
      build = None,
      calendar_list = Inl TransportError,
      events_list = (\<lambda>calendar_id. Inr (Some []))\<rparr>"
  have 1: "get_credentials ?w = Inr \<lparr>valid = True, expired = False, refresh_token = True\<rparr>" by (simp add: get_credentials_def)
  have 2: "cli_try_block (\<lambda>s. if s = ''2024-01-03T12:00:00.000Z'' then Some 1704283200000000000 else None) ?w = Inl TransportError"
    by (simp add: cli_try_block_def)
  have 3: "TransportError \<noteq> HttpError" by simp
  have 4: "dashboard_try_block (\<lambda>s. if s = ''2024-01-03T12:00:00.000Z'' then Some 1704283200000000000 else None) ?w = Inl TransportError"
    by (simp add: dashboard_try_block_def)
  from cli_fetch_lets_other_exceptions_out[OF 1 2 3]
  show ?thesis using 1 2 3 4 by blast
qed

text \<open>
  Claim C9. When the calendars are read without error and return at least one event,
  but every event lacks a creation timestamp or has no attendee that is neither
  \<^verbatim>\<open>self\<close> nor a \<^verbatim>\<open>resource\<close>, the command-line fetcher builds a frame without
  columns, and reading its column \<^verbatim>\<open>event_created_at\<close> raises \<^verbatim>\<open>KeyError\<close>, which its
  handler does not catch.
\<close>

theorem cli_fetch_raises_without_qualifying_attendee:
  assumes "get_credentials w = Inr creds"
    and "build w = None"
    and "calendar_list w = Inr calendar_list_result"
    and "get_all_events w (case calendar_list_result of None \<Rightarrow> [] | Some calendars \<Rightarrow> calendars) []
           = Inr all_events"
    and "all_events \<noteq> []"
    and "\<forall>ev \<in> set all_events. created ev = None \<or> created ev = Some []
           \<or> (\<forall>a \<in> set (case attendees ev of None \<Rightarrow> [] | Some as \<Rightarrow> as). flag (att_self a) \<or> flag (att_resource a))"
  shows "get_google_calendar_events_cli to_datetime w = Inl KeyError"
proof -
  have "process_events_cli all_events [] = []"
    using assms(6) by (rule process_events_cli_Nil)
  then have "cli_try_block to_datetime w = Inl KeyError"
    using assms(2-5) by (simp add: cli_try_block_def data_frame_def)
  then show ?thesis
    using assms(1) by (simp add: get_google_calendar_events_cli_def)
qed

theorem cli_fetch_raises_without_qualifying_attendee_witness:
  "get_credentials
     \<lparr>token_json = Some (Inr \<lparr>valid = True, expired = False, refresh_token = True\<rparr>),
      refresh = Inl RefreshError, run_local_server = Inl TransportError, write_token = None,
      build = None,
      calendar_list = Inr (Some [\<lparr>cal_id = Some ''primary''\<rparr>]),
      events_list = (\<lambda>calendar_id. Inr (Some [\<lparr>created = Some ''2024-01-03T12:00:00.000Z'', attendees = None\<rparr>,
        \<lparr>created = Some ''2024-01-03T12:00:00.000Z'', attendees = Some [\<lparr>att_email = Some ''me@x.com'', att_self = Some True, att_resource = None\<rparr>]\<rparr>]))\<rparr> = Inr \<lparr>valid = True, expired = False, refresh_token = True\<rparr>
   \<and> build
     \<lparr>token_json = Some (Inr \<lparr>valid = True, expired = False, refresh_token = True\<rparr>),
      refresh = Inl RefreshError, run_local_server = Inl TransportError, write_token = None,
      build = None,
      calendar_list = Inr (Some [\<lparr>cal_id = Some ''primary''\<rparr>]),
      events_list = (\<lambda>calendar_id. Inr (Some [\<lparr>created = Some ''2024-01-03T12:00:00.000Z'', attendees = None\<rparr>,
        \<lparr>created = Some ''2024-01-03T12:00:00.000Z'', attendees = Some [\<lparr>att_email = Some ''me@x.com'', att_self = Some True, att_resource = None\<rparr>]\<rparr>]))\<rparr> = None
   \<and> get_all_events
     \<lparr>token_json = Some (Inr \<lparr>valid = True, expired = False, refresh_token = True\<rparr>),
      refresh = Inl RefreshError, run_local_server = Inl TransportError, write_token = None,
      build = None,
      calendar_list = Inr (Some [\<lparr>cal_id = Some ''primary''\<rparr>]),
      events_list = (\<lambda>calendar_id. Inr (Some [\<lparr>created = Some ''2024-01-03T12:00:00.000Z'', attendees = None\<rparr>,
        \<lparr>created = Some ''2024-01-03T12:00:00.000Z'', attendees = Some [\<lparr>att_email = Some ''me@x.com'', att_self = Some True, att_resource = None\<rparr>]\<rparr>]))\<rparr> [\<lparr>cal_id = Some ''primary''\<rparr>] []
       = Inr [\<lparr>created = Some ''2024-01-03T12:00:00.000Z'', attendees = None\<rparr>,
        \<lparr>created = Some ''2024-01-03T12:00:00.000Z'', attendees = Some [\<lparr>att_email = Some ''me@x.com'', att_self = Some True, att_resource = None\<rparr>]\<rparr>]
   \<and> get_google_calendar_events_cli (\<lambda>s. if s = ''2024-01-03T12:00:00.000Z'' then Some 1704283200000000000 else None)
     \<lparr>token_json = Some (Inr \<lparr>valid = True, expired = False, refresh_token = True\<rparr>),
      refresh = Inl RefreshError, run_local_server = Inl TransportError, write_token = None,
      build = None,
      calendar_list = Inr (Some [\<lparr>cal_id = Some ''primary''\<rparr>]),
      events_list = (\<lambda>calendar_id. Inr (Some [\<lparr>created = Some ''2024-01-03T12:00:00.000Z'', attendees = None\<rparr>,
        \<lparr>created = Some ''2024-01-03T12:00:00.000Z'', attendees = Some [\<lparr>att_email = Some ''me@x.com'', att_self = Some True, att_resource = None\<rparr>]\<rparr>]))\<rparr> = Inl KeyError"
proof -
  let ?w = "\<lparr>token_json = Some (Inr \<lparr>valid = True, expired = False, refresh_token = True\<rparr>),
      refresh = Inl RefreshError, run_local_server = Inl TransportError, write_token = None,
      build = None,
      calendar_list = Inr (Some [\<lparr>cal_id = Some ''primary''\<rparr>]),
      events_list = (\<lambda>calendar_id. Inr (Some [\<lparr>created = Some ''2024-01-03T12:00:00.000Z'', attendees = None\<rparr>,
        \<lparr>created = Some ''2024-01-03T12:00:00.000Z'', attendees = Some [\<lparr>att_email = Some ''me@x.com'', att_self = Some True, att_resource = None\<rparr>]\<rparr>]))\<rparr>"
  have 1: "get_credentials ?w = Inr \<lparr>valid = True, expired = False, refresh_token = True\<rparr>" by (simp add: get_credentials_def)
  have 2: "build ?w = None" by simp
  have 3: "calendar_list ?w = Inr (Some [\<lparr>cal_id = Some ''primary''\<rparr>])" by simp
  have 4: "get_all_events ?w (case Some [\<lparr>cal_id = Some ''primary''\<rparr>] of None \<Rightarrow> [] | Some calendars \<Rightarrow> calendars) []
       = Inr [\<lparr>created = Some ''2024-01-03T12:00:00.000Z'', attendees = None\<rparr>,
        \<lparr>created = Some ''2024-01-03T12:00:00.000Z'', attendees = Some [\<lparr>att_email = Some ''me@x.com'', att_self = Some True, att_resource = None\<rparr>]\<rparr>]" by simp
  have 5: "[\<lparr>created = Some ''2024-01-03T12:00:00.000Z'', attendees = None\<rparr>,
        \<lparr>created = Some ''2024-01-03T12:00:00.000Z'', attendees = Some [\<lparr>att_email = Some ''me@x.com'', att_self = Some True, att_resource = None\<rparr>]\<rparr>] \<noteq> []" by simp
  have 6: "\<forall>ev \<in> set [\<lparr>created = Some ''2024-01-03T12:00:00.000Z'', attendees = None\<rparr>,
        \<lparr>created = Some ''2024-01-03T12:00:00.000Z'', attendees = Some [\<lparr>att_email = Some ''me@x.com'', att_self = Some True, att_resource = None\<rparr>]\<rparr>]. created ev = None \<or> created ev = Some []
       \<or> (\<forall>a \<in> set (case attendees ev of None \<Rightarrow> [] | Some as \<Rightarrow> as).
             flag (att_self a) \<or> flag (att_resource a))"
    by (simp add: flag_def)
  have g: "get_all_events ?w [\<lparr>cal_id = Some ''primary''\<rparr>] [] = Inr [\<lparr>created = Some ''2024-01-03T12:00:00.000Z'', attendees = None\<rparr>,
        \<lparr>created = Some ''2024-01-03T12:00:00.000Z'', attendees = Some [\<lparr>att_email = Some ''me@x.com'', att_self = Some True, att_resource = None\<rparr>]\<rparr>]" using 4 by simp
  from cli_fetch_raises_without_qualifying_attendee[OF 1 2 3 4 5 6, of "(\<lambda>s. if s = ''2024-01-03T12:00:00.000Z'' then Some 1704283200000000000 else None)"]
  show ?thesis using 1 2 g by blast
qed

text \<open>
  Claim C10, as the code has it. A fetch that returns without error gives one record
  for every attendee that is neither \<^verbatim>\<open>self\<close> nor a \<^verbatim>\<open>resource\<close> of every event with
  a creation timestamp, in order, with the attendee's e-mail as it is: nothing when the
  field is absent. A record without e-mail joins no lead that has an e-mail.
\<close>

theorem null_email_records:
  assumes "build w = None"
    and "calendar_list w = Inr calendar_list_result"
    and "get_all_events w (case calendar_list_result of None \<Rightarrow> [] | Some calendars \<Rightarrow> calendars) []
           = Inr all_events"
  shows "(\<forall>df. get_google_calendar_events_cli to_datetime w = Inr (df, None) \<longrightarrow>
            map attendee_email df =
              concat (map (\<lambda>ev. map att_email (filter (\<lambda>a. \<not> flag (att_self a) \<and> \<not> flag (att_resource a)) (case attendees ev of None \<Rightarrow> [] | Some as \<Rightarrow> as)))
                          (filter (\<lambda>ev. created ev \<noteq> None \<and> created ev \<noteq> Some []) all_events)))
       \<and> (\<forall>df. get_google_calendar_events_dashboard to_datetime w = Inr (df, None) \<longrightarrow>
            map attendee_email df =
              concat (map (\<lambda>ev. map att_email (filter (\<lambda>a. \<not> flag (att_self a) \<and> \<not> flag (att_resource a)) (case attendees ev of None \<Rightarrow> [] | Some as \<Rightarrow> as)))
                          (filter (\<lambda>ev. created ev \<noteq> None \<and> created ev \<noteq> Some []) all_events)))
       \<and> (\<forall>l e df_leads df_events. attendee_email e = None \<longrightarrow>
            (l, e) \<in> set (merge df_leads df_events) \<longrightarrow> email l = None)"
proof -
  let ?X = "concat (map (\<lambda>ev. map att_email (filter (\<lambda>a. \<not> flag (att_self a) \<and> \<not> flag (att_resource a)) (case attendees ev of None \<Rightarrow> [] | Some as \<Rightarrow> as)))
                          (filter (\<lambda>ev. created ev \<noteq> None \<and> created ev \<noteq> Some []) all_events))"
  have X: "map fst (process_events_cli all_events []) = ?X"
    by (rule emails_process_events_cli)
  have 1: "map attendee_email df = ?X"
    if "get_google_calendar_events_cli to_datetime w = Inr (df, None)" for df
  proof -
    have tb: "cli_try_block to_datetime w = Inr df"
      using that
      by (auto simp: get_google_calendar_events_cli_def split: sum.splits if_splits)
    show ?thesis
    proof (cases "all_events = []")
      case True
      then show ?thesis using tb assms by (simp add: cli_try_block_def)
    next
      case False
      then have "data_frame to_datetime (process_events_cli all_events []) = Inr df"
        using tb assms by (simp add: cli_try_block_def)
      then show ?thesis using data_frame_emails X by metis
    qed
  qed
  have 2: "map attendee_email df = ?X"
    if "get_google_calendar_events_dashboard to_datetime w = Inr (df, None)" for df
  proof -
    have "dashboard_try_block to_datetime w = Inr df"
      using that
      by (auto simp: get_google_calendar_events_dashboard_def split: sum.splits)
    then have "data_frame to_datetime (process_events_cli all_events []) = Inr df"
      using assms by (simp add: dashboard_try_block_def process_events_dashboard_eq)
    then show ?thesis using data_frame_emails X by metis
  qed
  have 3: "email l = None"
    if "attendee_email e = None" "(l, e) \<in> set (merge df_leads df_events)"
    for l e df_leads df_events
    using that by (simp add: set_merge)
  show ?thesis using 1 2 3 by blast
qed

theorem null_email_records_witness:
  "build
     \<lparr>token_json = Some (Inr \<lparr>valid = True, expired = False, refresh_token = True\<rparr>),
      refresh = Inl RefreshError, run_local_server = Inl TransportError, write_token = None,
      build = None,
      calendar_list = Inr (Some [\<lparr>cal_id = Some ''primary''\<rparr>]),
      events_list = (\<lambda>calendar_id. Inr (Some [\<lparr>created = Some ''2024-01-03T12:00:00.000Z'', attendees = Some [\<lparr>att_email = Some ''a@x.com'', att_self = None, att_resource = None\<rparr>,
          \<lparr>att_email = None, att_self = Some False, att_resource = None\<rparr>,
          \<lparr>att_email = Some ''me@x.com'', att_self = Some True, att_resource = None\<rparr>,
          \<lparr>att_email = Some ''room@x.com'', att_self = None, att_resource = Some True\<rparr>]\<rparr>,
        \<lparr>created = None, attendees = Some [\<lparr>att_email = Some ''a@x.com'', att_self = None, att_resource = None\<rparr>]\<rparr>]))\<rparr> = None
   \<and> get_all_events
     \<lparr>token_json = Some (Inr \<lparr>valid = True, expired = False, refresh_token = True\<rparr>),
      refresh = Inl RefreshError, run_local_server = Inl TransportError, write_token = None,
      build = None,
      calendar_list = Inr (Some [\<lparr>cal_id = Some ''primary''\<rparr>]),
      events_list = (\<lambda>calendar_id. Inr (Some [\<lparr>created = Some ''2024-01-03T12:00:00.000Z'', attendees = Some [\<lparr>att_email = Some ''a@x.com'', att_self = None, att_resource = None\<rparr>,
          \<lparr>att_email = None, att_self = Some False, att_resource = None\<rparr>,
          \<lparr>att_email = Some ''me@x.com'', att_self = Some True, att_resource = None\<rparr>,
          \<lparr>att_email = Some ''room@x.com'', att_self = None, att_resource = Some True\<rparr>]\<rparr>,
        \<lparr>created = None, attendees = Some [\<lparr>att_email = Some ''a@x.com'', att_self = None, att_resource = None\<rparr>]\<rparr>]))\<rparr> [\<lparr>cal_id = Some ''primary''\<rparr>] []
       = Inr [\<lparr>created = Some ''2024-01-03T12:00:00.000Z'', attendees = Some [\<lparr>att_email = Some ''a@x.com'', att_self = None, att_resource = None\<rparr>,
          \<lparr>att_email = None, att_self = Some False, att_resource = None\<rparr>,
          \<lparr>att_email = Some ''me@x.com'', att_self = Some True, att_resource = None\<rparr>,
          \<lparr>att_email = Some ''room@x.com'', att_self = None, att_resource = Some True\<rparr>]\<rparr>,
        \<lparr>created = None, attendees = Some [\<lparr>att_email = Some ''a@x.com'', att_self = None, att_resource = None\<rparr>]\<rparr>]
   \<and> get_google_calendar_events_cli (\<lambda>s. if s = ''2024-01-03T12:00:00.000Z'' then Some 1704283200000000000 else None)
     \<lparr>token_json = Some (Inr \<lparr>valid = True, expired = False, refresh_token = True\<rparr>),
      refresh = Inl RefreshError, run_local_server = Inl TransportError, write_token = None,
      build = None,
      calendar_list = Inr (Some [\<lparr>cal_id = Some ''primary''\<rparr>]),
      events_list = (\<lambda>calendar_id. Inr (Some [\<lparr>created = Some ''2024-01-03T12:00:00.000Z'', attendees = Some [\<lparr>att_email = Some ''a@x.com'', att_self = None, att_resource = None\<rparr>,
          \<lparr>att_email = None, att_self = Some False, att_resource = None\<rparr>,
          \<lparr>att_email = Some ''me@x.com'', att_self = Some True, att_resource = None\<rparr>,
          \<lparr>att_email = Some ''room@x.com'', att_self = None, att_resource = Some True\<rparr>]\<rparr>,
        \<lparr>created = None, attendees = Some [\<lparr>att_email = Some ''a@x.com'', att_self = None, att_resource = None\<rparr>]\<rparr>]))\<rparr>
       = Inr ([\<lparr>attendee_email = Some ''a@x.com'', event_created_at = 1704283200000000000\<rparr>,
         \<lparr>attendee_email = None, event_created_at = 1704283200000000000\<rparr>], None)
   \<and> get_google_calendar_events_dashboard (\<lambda>s. if s = ''2024-01-03T12:00:00.000Z'' then Some 1704283200000000000 else None)
     \<lparr>token_json = Some (Inr \<lparr>valid = True, expired = False, refresh_token = True\<rparr>),
      refresh = Inl RefreshError, run_local_server = Inl TransportError, write_token = None,
      build = None,
      calendar_list = Inr (Some [\<lparr>cal_id = Some ''primary''\<rparr>]),
      events_list = (\<lambda>calendar_id. Inr (Some [\<lparr>created = Some ''2024-01-03T12:00:00.000Z'', attendees = Some [\<lparr>att_email = Some ''a@x.com'', att_self = None, att_resource = None\<rparr>,
          \<lparr>att_email = None, att_self = Some False, att_resource = None\<rparr>,
          \<lparr>att_email = Some ''me@x.com'', att_self = Some True, att_resource = None\<rparr>,
          \<lparr>att_email = Some ''room@x.com'', att_self = None, att_resource = Some True\<rparr>]\<rparr>,
        \<lparr>created = None, attendees = Some [\<lparr>att_email = Some ''a@x.com'', att_self = None, att_resource = None\<rparr>]\<rparr>]))\<rparr>
       = Inr ([\<lparr>attendee_email = Some ''a@x.com'', event_created_at = 1704283200000000000\<rparr>,
         \<lparr>attendee_email = None, event_created_at = 1704283200000000000\<rparr>], None)
   \<and> map attendee_email
        [\<lparr>attendee_email = Some ''a@x.com'', event_created_at = 1704283200000000000\<rparr>,
         \<lparr>attendee_email = None, event_created_at = 1704283200000000000\<rparr>] = [Some ''a@x.com'', None]"
proof -
  let ?w = "\<lparr>token_json = Some (Inr \<lparr>valid = True, expired = False, refresh_token = True\<rparr>),
      refresh = Inl RefreshError, run_local_server = Inl TransportError, write_token = None,
      build = None,
      calendar_list = Inr (Some [\<lparr>cal_id = Some ''primary''\<rparr>]),
      events_list = (\<lambda>calendar_id. Inr (Some [\<lparr>created = Some ''2024-01-03T12:00:00.000Z'', attendees = Some [\<lparr>att_email = Some ''a@x.com'', att_self = None, att_resource = None\<rparr>,
          \<lparr>att_email = None, att_self = Some False, att_resource = None\<rparr>,
          \<lparr>att_email = Some ''me@x.com'', att_self = Some True, att_resource = None\<rparr>,
          \<lparr>att_email = Some ''room@x.com'', att_self = None, att_resource = Some True\<rparr>]\<rparr>,
        \<lparr>created = None, attendees = Some [\<lparr>att_email = Some ''a@x.com'', att_self = None, att_resource = None\<rparr>]\<rparr>]))\<rparr>"
  have 1: "build ?w = None" by simp
  have 2: "calendar_list ?w = Inr (Some [\<lparr>cal_id = Some ''primary''\<rparr>])" by simp
  have 3: "get_all_events ?w (case Some [\<lparr>cal_id = Some ''primary''\<rparr>] of None \<Rightarrow> [] | Some calendars \<Rightarrow> calendars) []
       = Inr [\<lparr>created = Some ''2024-01-03T12:00:00.000Z'', attendees = Some [\<lparr>att_email = Some ''a@x.com'', att_self = None, att_resource = None\<rparr>,
          \<lparr>att_email = None, att_self = Some False, att_resource = None\<rparr>,
          \<lparr>att_email = Some ''me@x.com'', att_self = Some True, att_resource = None\<rparr>,
          \<lparr>att_email = Some ''room@x.com'', att_self = None, att_resource = Some True\<rparr>]\<rparr>,
        \<lparr>created = None, attendees = Some [\<lparr>att_email = Some ''a@x.com'', att_self = None, att_resource = None\<rparr>]\<rparr>]" by simp
  have g: "get_all_events ?w [\<lparr>cal_id = Some ''primary''\<rparr>] [] = Inr [\<lparr>created = Some ''2024-01-03T12:00:00.000Z'', attendees = Some [\<lparr>att_email = Some ''a@x.com'', att_self = None, att_resource = None\<rparr>,
          \<lparr>att_email = None, att_self = Some False, att_resource = None\<rparr>,
          \<lparr>att_email = Some ''me@x.com'', att_self = Some True, att_resource = None\<rparr>,
          \<lparr>att_email = Some ''room@x.com'', att_self = None, att_resource = Some True\<rparr>]\<rparr>,
        \<lparr>created = None, attendees = Some [\<lparr>att_email = Some ''a@x.com'', att_self = None, att_resource = None\<rparr>]\<rparr>]" using 3 by simp
  have 4: "get_google_calendar_events_cli (\<lambda>s. if s = ''2024-01-03T12:00:00.000Z'' then Some 1704283200000000000 else None) ?w
       = Inr ([\<lparr>attendee_email = Some ''a@x.com'', event_created_at = 1704283200000000000\<rparr>,
         \<lparr>attendee_email = None, event_created_at = 1704283200000000000\<rparr>], None)"
    by (simp add: get_google_calendar_events_cli_def get_credentials_def cli_try_block_def
        data_frame_def flag_def)
  have 5: "get_google_calendar_events_dashboard (\<lambda>s. if s = ''2024-01-03T12:00:00.000Z'' then Some 1704283200000000000 else None) ?w
       = Inr ([\<lparr>attendee_email = Some ''a@x.com'', event_created_at = 1704283200000000000\<rparr>,
         \<lparr>attendee_email = None, event_created_at = 1704283200000000000\<rparr>], None)"
    by (simp add: get_google_calendar_events_dashboard_def get_credentials_def
        dashboard_try_block_def data_frame_def flag_def)
  have 6: "map attendee_email [\<lparr>attendee_email = Some ''a@x.com'', event_created_at = 1704283200000000000\<rparr>,
         \<lparr>attendee_email = None, event_created_at = 1704283200000000000\<rparr>] = [Some ''a@x.com'', None]" by simp
  from null_email_records[OF 1 2 3, of "(\<lambda>s. if s = ''2024-01-03T12:00:00.000Z'' then Some 1704283200000000000 else None)"]
  show ?thesis using 1 g 4 5 6 by blast
qed

text \<open>
  The claim C10 as it is worded fails in its last part: the join pairs null keys with
  each other, so the record without e-mail joins a lead whose e-mail is null, and that
  lead is counted.
\<close>

theorem null_email_record_joins_null_email_lead:
  "get_google_calendar_events_cli (\<lambda>s. if s = ''2024-01-03T12:00:00.000Z'' then Some 1704283200000000000 else None)
     \<lparr>token_json = Some (Inr \<lparr>valid = True, expired = False, refresh_token = True\<rparr>),
      refresh = Inl RefreshError, run_local_server = Inl TransportError, write_token = None,
      build = None,
      calendar_list = Inr (Some [\<lparr>cal_id = Some ''primary''\<rparr>]),
      events_list = (\<lambda>calendar_id. Inr (Some [\<lparr>created = Some ''2024-01-03T12:00:00.000Z'', attendees = Some [\<lparr>att_email = Some ''a@x.com'', att_self = None, att_resource = None\<rparr>,
          \<lparr>att_email = None, att_self = Some False, att_resource = None\<rparr>,
          \<lparr>att_email = Some ''me@x.com'', att_self = Some True, att_resource = None\<rparr>,
          \<lparr>att_email = Some ''room@x.com'', att_self = None, att_resource = Some True\<rparr>]\<rparr>,
        \<lparr>created = None, attendees = Some [\<lparr>att_email = Some ''a@x.com'', att_self = None, att_resource = None\<rparr>]\<rparr>]))\<rparr>
       = Inr ([\<lparr>attendee_email = Some ''a@x.com'', event_created_at = 1704283200000000000\<rparr>,
         \<lparr>attendee_email = None, event_created_at = 1704283200000000000\<rparr>], None)
   \<and> (\<lparr>email = None, created_at = 1704196800000000000\<rparr>,
       \<lparr>attendee_email = None, event_created_at = 1704283200000000000\<rparr>)
       \<in> set (merge [\<lparr>email = None, created_at = 1704196800000000000\<rparr>]
           [\<lparr>attendee_email = Some ''a@x.com'', event_created_at = 1704283200000000000\<rparr>,
         \<lparr>attendee_email = None, event_created_at = 1704283200000000000\<rparr>])
   \<and> sample_count (aggregate [\<lparr>email = None, created_at = 1704196800000000000\<rparr>]
        [\<lparr>attendee_email = Some ''a@x.com'', event_created_at = 1704283200000000000\<rparr>,
         \<lparr>attendee_email = None, event_created_at = 1704283200000000000\<rparr>]) = 1"
  by (simp add: get_google_calendar_events_cli_def get_credentials_def cli_try_block_def
      data_frame_def flag_def merge_def aggregate_def aggregate_with_def first_call_def
      sort_values_def drop_duplicates_def with_speed_def non_negative_def speed_def
      sample_count_def)

end
